theory Spec2Isabelle
  imports Main "HOL-Library.AList" "HOL-Library.Sublist"
begin

section \<open>Python strings and values\<close>

text \<open>
  \<^verbatim>\<open>str.split(sep)\<close> for a one-character separator: the pieces between the
  occurrences of \<open>sep\<close>; the result is never empty, so \<^verbatim>\<open>s.split('_')[0]\<close> never raises.
\<close>

fun split_on :: "char \<Rightarrow> string \<Rightarrow> string list" where
  "split_on sep [] = [[]]"
| "split_on sep (c # cs) =
     (if c = sep then [] # split_on sep cs
      else (case split_on sep cs of
              w # ws \<Rightarrow> (c # w) # ws
            | [] \<Rightarrow> [[c]]))"

text \<open>\<^verbatim>\<open>name.split('_')[0]\<close>: the family prefix of an identifier.\<close>

definition family :: "string \<Rightarrow> string" where
  "family name = hd (split_on CHR ''_'' name)"

text \<open>\<^verbatim>\<open>s.endswith(suf)\<close>.\<close>

definition endswith :: "string \<Rightarrow> string \<Rightarrow> bool" where
  "endswith s suf = (length suf \<le> length s \<and> drop (length s - length suf) s = suf)"

text \<open>
  The Python values the resolver handles. \<open>VDict\<close> is a plain mapping in insertion
  order (a parsed configuration tree); \<open>VCfg c i kvs\<close> is an instance of a subclass of
  \<^verbatim>\<open>BaseConfig\<close> (itself a \<^verbatim>\<open>dict\<close>) with class name \<open>c\<close>, identity \<^verbatim>\<open>id(obj)\<close> \<open>= i\<close> and
  items \<open>kvs\<close>. A value of this type is a finite tree: every config object of the model
  is acyclic, and an object that holds itself among its items is no value of it.
\<close>

datatype val =
    VNone
  | VInt int
  | VStr string
  | VList "val list"
  | VDict "(string \<times> val) list"
  | VCfg string nat "(string \<times> val) list"

text \<open>
  The exceptions of the resolver, named after the taxonomy of the specification; the
  Python class that is raised is given with each.
\<close>

type_synonym support_list = "(string \<times> string list) list"

datatype error =
    TypeError                                 \<comment> \<open>\<^verbatim>\<open>TypeError\<close>: a value of the wrong type\<close>
  | InvalidArgument string                    \<comment> \<open>\<^verbatim>\<open>ValueError\<close>: existing path of the wrong kind\<close>
  | UnsupportedIdentifier string support_list \<comment> \<open>\<^verbatim>\<open>ValueError\<close>: name not in the support list\<close>
  | NotFound string                           \<comment> \<open>\<^verbatim>\<open>FileNotFoundError\<close>: expected file missing\<close>
  | MissingDefault string                     \<comment> \<open>\<^verbatim>\<open>FileNotFoundError\<close>: default yaml missing\<close>
  | MissingField string                       \<comment> \<open>\<^verbatim>\<open>ValueError\<close>: no \<^verbatim>\<open>tokenizer_class\<close>\<close>
  | IndexError                                \<comment> \<open>\<^verbatim>\<open>IndexError\<close>: list index out of range\<close>
  | KeyError                                  \<comment> \<open>\<^verbatim>\<open>KeyError\<close>: key missing from a mapping\<close>
  | AttributeError                            \<comment> \<open>attribute or method of a non-mapping\<close>
  | OSError                                   \<comment> \<open>raised by \<^verbatim>\<open>os\<close>, \<^verbatim>\<open>shutil\<close> or \<^verbatim>\<open>open\<close>\<close>
  | ParseError                                \<comment> \<open>malformed file content\<close>
  | BuildError                                \<comment> \<open>raised by a builder or by the registry\<close>

section \<open>Mappings\<close>

text \<open>
  A \<^verbatim>\<open>dict\<close> is an association list in insertion order. \<^verbatim>\<open>d.update({k: v})\<close> keeps the
  position of an existing key and appends a new one, which is \<^const>\<open>AList.update\<close>;
  \<^verbatim>\<open>d.pop(k, None)\<close> returns the value (or \<^verbatim>\<open>None\<close>) and removes the key.
\<close>

definition dict_pop :: "string \<Rightarrow> (string \<times> val) list \<Rightarrow> val \<times> (string \<times> val) list" where
  "dict_pop k kvs =
     (case map_of kvs k of
        None \<Rightarrow> (VNone, kvs)
      | Some v \<Rightarrow> (v, AList.delete k kvs))"

text \<open>
  Modelled from the spec: the classes \<^verbatim>\<open>MindFormerConfig\<close> and \<^verbatim>\<open>BaseConfig\<close> are not among
  the sources. The specification describes a ConfigTree as an ordered mapping from string
  keys to values with the operations \<^verbatim>\<open>get(key, default)\<close> and \<^verbatim>\<open>update(mapping)\<close>;
  attribute access \<^verbatim>\<open>tree.key\<close> is \<^verbatim>\<open>tree.get(key, None)\<close>, and an attribute of anything
  that is not a mapping raises.
\<close>

fun attr :: "string \<Rightarrow> val \<Rightarrow> error + val" where
  "attr k (VDict kvs) = Inr (case map_of kvs k of None \<Rightarrow> VNone | Some v \<Rightarrow> v)"
| "attr k (VCfg c i kvs) = Inr (case map_of kvs k of None \<Rightarrow> VNone | Some v \<Rightarrow> v)"
| "attr k v = Inl AttributeError"

fun update_val :: "string \<Rightarrow> val \<Rightarrow> val \<Rightarrow> error + val" where
  "update_val k x (VDict kvs) = Inr (VDict (AList.update k x kvs))"
| "update_val k x (VCfg c i kvs) = Inr (VCfg c i (AList.update k x kvs))"
| "update_val k x v = Inl AttributeError"

section \<open>The file system\<close>

text \<open>
  The file system is an association list from normalised paths to nodes; its order is
  the order in which a directory is listed. A path string is read as
  \<^verbatim>\<open>os.path.normpath\<close> reads it (there are no symbolic links): it is split at \<open>/\<close>, empty
  components and \<open>.\<close> are dropped, \<open>..\<close> removes the component before it. An absolute
  path starts with the component \<open>/\<close>; the empty path is the working directory.

  This reading is lexical. It differs from the answer of the operating system only
  where \<open>..\<close>, \<open>.\<close> or a final separator follows a name that is not an existing
  directory (the system finds nothing there, the lexical reading may), and for the
  parent of the working directory, which the model does not hold.
\<close>

type_synonym path = "string list"

datatype node = File string | Dir

type_synonym fsys = "(path \<times> node) list"

definition norm_step :: "path \<Rightarrow> string \<Rightarrow> path" where
  "norm_step acc c =
     (if c = [] \<or> c = ''.'' then acc
      else if c = ''..'' then
        (if acc = [] \<or> last acc = ''..'' then acc @ [c]
         else if acc = [''/''] then acc
         else butlast acc)
      else acc @ [c])"

definition normpath :: "string \<Rightarrow> path" where
  "normpath s =
     foldl norm_step (if take 1 s = ''/'' then [''/''] else []) (split_on CHR ''/'' s)"

text \<open>The working directory and the root always exist and are directories.\<close>

definition lookup :: "fsys \<Rightarrow> path \<Rightarrow> node option" where
  "lookup fs p = (if p = [] \<or> p = [''/''] then Some Dir else map_of fs p)"

text \<open>\<^verbatim>\<open>os.stat\<close> of the empty string fails, so the empty string names nothing.\<close>

definition node_at :: "fsys \<Rightarrow> string \<Rightarrow> node option" where
  "node_at fs s = (if s = [] then None else lookup fs (normpath s))"

definition path_exists :: "fsys \<Rightarrow> string \<Rightarrow> bool" where
  "path_exists fs s = (node_at fs s \<noteq> None)"

definition isdir :: "fsys \<Rightarrow> string \<Rightarrow> bool" where
  "isdir fs s = (node_at fs s = Some Dir)"

fun is_regular :: "node option \<Rightarrow> bool" where
  "is_regular (Some (File c)) = True"
| "is_regular n = False"

definition isfile :: "fsys \<Rightarrow> string \<Rightarrow> bool" where
  "isfile fs s = is_regular (node_at fs s)"

text \<open>\<^verbatim>\<open>os.listdir(d)\<close>: the names of the entries of the directory, in listing order.\<close>

definition listdir :: "fsys \<Rightarrow> string \<Rightarrow> error + string list" where
  "listdir fs d =
     (if isdir fs d
      then Inr (map (\<lambda>e. last (fst e))
                  (filter (\<lambda>e. fst e \<noteq> [] \<and> fst e \<noteq> [''/''] \<and> butlast (fst e) = normpath d) fs))
      else Inl OSError)"

text \<open>
  \<^verbatim>\<open>os.path.join(a, b)\<close> of \<^verbatim>\<open>posixpath\<close>: an absolute \<open>b\<close> replaces \<open>a\<close>; otherwise \<open>b\<close> is
  appended, after a separator unless \<open>a\<close> is empty or already ends with one.
\<close>

definition path_join :: "string \<Rightarrow> string \<Rightarrow> string" where
  "path_join a b =
     (if take 1 b = ''/'' then b
      else if a = [] \<or> last a = CHR ''/'' then a @ b
      else a @ ''/'' @ b)"

text \<open>\<^verbatim>\<open>os.path.basename(p)\<close>: what follows the last separator.\<close>

definition basename :: "string \<Rightarrow> string" where
  "basename p = last (split_on CHR ''/'' p)"

text \<open>
  The state the resolver works on: the file system, the calls that changed it (in the
  order they were made), and the table of \<^verbatim>\<open>MindFormerBook\<close> from the identity of a config
  object to the name of its model.
\<close>

datatype fs_call = Makedirs string | Copy string string

record world =
  fs :: fsys
  calls :: "fs_call list"
  config_to_name :: "(nat \<times> val) list"

text \<open>
  \<^verbatim>\<open>os.makedirs(d)\<close> creates the directory and every missing ancestor. It fails when
  \<open>d\<close> exists already or when a regular file is in the way.
\<close>

definition missing_dirs :: "fsys \<Rightarrow> path \<Rightarrow> path list" where
  "missing_dirs f p = filter (\<lambda>q. lookup f q = None) (prefixes p)"

definition makedirs :: "string \<Rightarrow> world \<Rightarrow> (error + unit) \<times> world" where
  "makedirs d w =
     (let w1 = w\<lparr>calls := calls w @ [Makedirs d]\<rparr>; p = normpath d in
      if d = [] \<or> path_exists (fs w) d then (Inl OSError, w1)
      else if \<exists>q \<in> set (prefixes p). is_regular (lookup (fs w) q) then (Inl OSError, w1)
      else (Inr (), w1\<lparr>fs := fold (\<lambda>q. AList.update q Dir) (missing_dirs (fs w) p) (fs w)\<rparr>))"

text \<open>
  \<^verbatim>\<open>shutil.copy(src, dst)\<close> writes the content of the regular file \<open>src\<close> to \<open>dst\<close>, or
  into \<open>dst\<close> under the name of \<open>src\<close> when \<open>dst\<close> is a directory. It fails when \<open>src\<close>
  is not a regular file, when the target is a directory and when the directory of the
  target does not exist.
\<close>

definition shutil_copy :: "string \<Rightarrow> string \<Rightarrow> world \<Rightarrow> (error + unit) \<times> world" where
  "shutil_copy src dst w =
     (let w1 = w\<lparr>calls := calls w @ [Copy src dst]\<rparr>;
          target = (if isdir (fs w) dst then path_join dst (basename src) else dst);
          p = normpath target in
      case node_at (fs w) src of
        Some (File c) \<Rightarrow>
          if target = [] \<or> p = [] \<or> lookup (fs w) p = Some Dir
             \<or> lookup (fs w) (butlast p) \<noteq> Some Dir
          then (Inl OSError, w1)
          else (Inr (), w1\<lparr>fs := AList.update p (File c) (fs w)\<rparr>)
      | _ \<Rightarrow> (Inl OSError, w1))"

section \<open>The collaborators\<close>

text \<open>
  \<^verbatim>\<open>MindFormerBook\<close> is not among the sources: its two support lists, the folder the
  checkpoints are downloaded to and the path of the project are parameters.
\<close>

record book =
  model_support_list :: support_list
  tokenizer_support_list :: support_list
  checkpoint_download_folder :: string
  project_path :: string

text \<open>
  The parsers and builders are not among the sources either and are parameters: the
  yaml parser behind \<^verbatim>\<open>MindFormerConfig(path)\<close>, \<^verbatim>\<open>json.load\<close>, \<^verbatim>\<open>build_model_config\<close>,
  \<^verbatim>\<open>build_model\<close>, \<^verbatim>\<open>build_processor\<close>, and the tokenizer class of the registry with its
  own \<^verbatim>\<open>from_pretrained\<close>. A parser returns no value on malformed content, a builder an
  error when it raises.
\<close>

record ('m, 'p, 't) collab =
  parse_yaml :: "string \<Rightarrow> val option"
  parse_json :: "string \<Rightarrow> val option"
  build_model_config :: "val \<Rightarrow> error + val"
  build_model :: "val \<Rightarrow> error + 'm"
  build_processor :: "val \<Rightarrow> string option \<Rightarrow> error + 'p"
  tokenizer_from_pretrained :: "val \<Rightarrow> string \<Rightarrow> error + 't"

text \<open>
  Modelled from the spec: \<^verbatim>\<open>MindFormerConfig(path)\<close> is not among the sources. The
  specification gives \<^verbatim>\<open>load(path) -> ConfigTree\<close>, which parses a structured file and
  fails with \<^verbatim>\<open>ParseError\<close> on malformed input; a path that is no regular file cannot be
  opened.
\<close>

definition MindFormerConfig :: "(string \<Rightarrow> val option) \<Rightarrow> fsys \<Rightarrow> string \<Rightarrow> error + val" where
  "MindFormerConfig parse f file =
     (case node_at f file of
        Some (File c) \<Rightarrow> (case parse c of None \<Rightarrow> Inl ParseError | Some v \<Rightarrow> Inr v)
      | _ \<Rightarrow> Inl OSError)"

section \<open>Resolution of a supported name\<close>

text \<open>
  The condition of \<^verbatim>\<open>from_pretrained\<close> on a name: the family is a key of the support
  list and the name is listed under it.
\<close>

definition is_supported :: "support_list \<Rightarrow> string \<Rightarrow> bool" where
  "is_supported sl name =
     (case map_of sl (family name) of
        None \<Rightarrow> False
      | Some names \<Rightarrow> name \<in> set names)"

definition cache_dir :: "book \<Rightarrow> string \<Rightarrow> string" where
  "cache_dir bk name = path_join (checkpoint_download_folder bk) (family name)"

definition cached_yaml :: "book \<Rightarrow> string \<Rightarrow> string" where
  "cached_yaml bk name = path_join (cache_dir bk name) (name @ ''.yaml'')"

definition default_yaml :: "book \<Rightarrow> string \<Rightarrow> string" where
  "default_yaml bk name =
     path_join (path_join (path_join (path_join (project_path bk) ''configs'') (family name))
                  ''model_config'') (name @ ''.yaml'')"

text \<open>
  The block that all four \<^verbatim>\<open>from_pretrained\<close> share word for word (lines 92-108, 281-297,
  387-400 and 519-534 of \<^verbatim>\<open>auto_class.py\<close>): create the cache directory when it does not
  exist, and copy the default yaml into it when the cached yaml does not exist.
  \<^verbatim>\<open>os.path.realpath\<close> returns a non-empty string, which is true.
\<close>

definition fetch_yaml :: "book \<Rightarrow> string \<Rightarrow> world \<Rightarrow> (error + string) \<times> world" where
  "fetch_yaml bk name w =
     (let checkpoint_path = cache_dir bk name in
      case (if \<not> path_exists (fs w) checkpoint_path then makedirs checkpoint_path w
            else (Inr (), w)) of
        (Inl e, w1) \<Rightarrow> (Inl e, w1)
      | (Inr u, w1) \<Rightarrow>
          let yaml_file = cached_yaml bk name in
          if \<not> path_exists (fs w1) yaml_file then
            let default_yaml_file = default_yaml bk name in
            if path_exists (fs w1) default_yaml_file then
              (case shutil_copy default_yaml_file yaml_file w1 of
                 (Inl e, w2) \<Rightarrow> (Inl e, w2)
               | (Inr u, w2) \<Rightarrow> (Inr yaml_file, w2))
            else (Inl (MissingDefault default_yaml_file), w1)
          else (Inr yaml_file, w1))"

section \<open>AutoConfig\<close>

text \<open>\<^verbatim>\<open>id(obj)\<close> of a config object; other values carry no identity here.\<close>

fun py_id :: "val \<Rightarrow> nat option" where
  "py_id (VCfg c i kvs) = Some i"
| "py_id v = None"

text \<open>
  Lines 112-114: build the config from \<^verbatim>\<open>config_args.model.model_config\<close> and record
  \<^verbatim>\<open>config_args.model.arch.type\<close> under its identity.
\<close>

definition AutoConfig_build ::
  "('m, 'p, 't) collab \<Rightarrow> world \<Rightarrow> error + val \<Rightarrow> (error + val) \<times> world" where
  "AutoConfig_build cb w loaded =
     (case loaded of
        Inl e \<Rightarrow> (Inl e, w)
      | Inr config_args \<Rightarrow>
          (case attr ''model'' config_args of
             Inl e \<Rightarrow> (Inl e, w)
           | Inr model \<Rightarrow>
               (case attr ''model_config'' model of
                  Inl e \<Rightarrow> (Inl e, w)
                | Inr mc \<Rightarrow>
                    (case build_model_config cb mc of
                       Inl e \<Rightarrow> (Inl e, w)
                     | Inr config \<Rightarrow>
                         (case attr ''arch'' model of
                            Inl e \<Rightarrow> (Inl e, w)
                          | Inr arch \<Rightarrow>
                              (case attr ''type'' arch of
                                 Inl e \<Rightarrow> (Inl e, w)
                               | Inr name \<Rightarrow>
                                   (Inr config,
                                    (case py_id config of
                                       None \<Rightarrow> w
                                     | Some i \<Rightarrow>
                                         w\<lparr>config_to_name :=
                                              AList.update i name (config_to_name w)\<rparr>))))))))"

definition AutoConfig_support_list :: "book \<Rightarrow> support_list" where
  "AutoConfig_support_list bk = model_support_list bk"

definition AutoConfig_from_pretrained ::
  "book \<Rightarrow> ('m, 'p, 't) collab \<Rightarrow> world \<Rightarrow> val \<Rightarrow> (error + val) \<times> world" where
  "AutoConfig_from_pretrained bk cb w yaml_name_or_path =
     (case yaml_name_or_path of
        VStr s \<Rightarrow>
          if path_exists (fs w) s then
            if \<not> endswith s ''.yaml'' then (Inl (InvalidArgument s), w)
            else AutoConfig_build cb w (MindFormerConfig (parse_yaml cb) (fs w) s)
          else if \<not> is_supported (AutoConfig_support_list bk) s
          then (Inl (UnsupportedIdentifier s (AutoConfig_support_list bk)), w)
          else
            (case fetch_yaml bk s w of
               (Inl e, w1) \<Rightarrow> (Inl e, w1)
             | (Inr yaml_file, w1) \<Rightarrow>
                 AutoConfig_build cb w1 (MindFormerConfig (parse_yaml cb) (fs w1) yaml_file))
      | _ \<Rightarrow> (Inl TypeError, w))"

definition AutoConfig_get_support_list :: "book \<Rightarrow> support_list" where
  "AutoConfig_get_support_list bk = AutoConfig_support_list bk"

section \<open>AutoModel\<close>

definition AutoModel_support_list :: "book \<Rightarrow> support_list" where
  "AutoModel_support_list bk = model_support_list bk"

text \<open>
  \<^verbatim>\<open>_inverse_parse_config\<close> (lines 189-210). A value that is no \<^verbatim>\<open>BaseConfig\<close> is returned
  as it is. A config object gets the key \<open>type\<close> with its class name, then every item
  is replaced by its own inverse parse; the object is changed in place and keeps its
  identity. A \<^verbatim>\<open>dict\<close> holds each key once, so the loop over the items is a map.
\<close>

lemma set_update_subset: "set (AList.update k v al) \<subseteq> insert (k, v) (set al)"
  by (induction al) auto

lemma size_item_less:
  "kv \<in> set kvs \<Longrightarrow> size (snd kv) < Suc (size_list (size_prod (\<lambda>x. 0) size) kvs)"
proof -
  assume mem: "kv \<in> set kvs"
  have "size (snd kv) \<le> size_prod (\<lambda>x. 0) size kv"
    by (cases kv) simp
  with mem have "size (snd kv) \<le> size_list (size_prod (\<lambda>x. 0) size) kvs"
    by (rule size_list_estimation')
  then show ?thesis by simp
qed

function inverse_parse_config :: "val \<Rightarrow> val" where
  "inverse_parse_config (VCfg c i kvs) =
     VCfg c i (map (\<lambda>kv. (fst kv, inverse_parse_config (snd kv)))
                 (AList.update ''type'' (VStr c) kvs))"
| "inverse_parse_config VNone = VNone"
| "inverse_parse_config (VInt n) = VInt n"
| "inverse_parse_config (VStr s) = VStr s"
| "inverse_parse_config (VList vs) = VList vs"
| "inverse_parse_config (VDict kvs) = VDict kvs"
  by pat_completeness auto

termination inverse_parse_config
proof (relation "measure size")
  show "wf (measure size)" by simp
next
  fix c :: string and i :: nat and kvs :: "(string \<times> val) list" and kv
  assume "kv \<in> set (AList.update ''type'' (VStr c) kvs)"
  then have "kv = (''type'', VStr c) \<or> kv \<in> set kvs"
    using set_update_subset by fastforce
  then show "(snd kv, VCfg c i kvs) \<in> measure size"
  proof
    assume "kv = (''type'', VStr c)"
    then show ?thesis by simp
  next
    assume "kv \<in> set kvs"
    then show ?thesis using size_item_less [of kv kvs] by simp
  qed
qed

text \<open>
  \<^verbatim>\<open>_wrap_config\<close> (lines 212-229): the name is popped from \<open>model_name\<close>; when that gives
  \<^verbatim>\<open>None\<close> it is looked up in the table under the identity of the config. The three new
  objects are instances of \<^verbatim>\<open>BaseConfig\<close> with the identities \<open>fresh\<close>, \<open>fresh + 1\<close> and
  \<open>fresh + 2\<close>. A list has a \<^verbatim>\<open>pop\<close> that takes one argument at most; any other value
  has no \<^verbatim>\<open>pop\<close> at all.
\<close>

definition table_get :: "(nat \<times> val) list \<Rightarrow> val \<Rightarrow> val" where
  "table_get tab v =
     (case py_id v of
        None \<Rightarrow> VNone
      | Some i \<Rightarrow> (case map_of tab i of None \<Rightarrow> VNone | Some n \<Rightarrow> n))"

fun wrap_config :: "(nat \<times> val) list \<Rightarrow> nat \<Rightarrow> val \<Rightarrow> error + val" where
  "wrap_config tab fresh (VCfg c i kvs) =
     (let (popped, kvs') = dict_pop ''model_name'' kvs;
          config = VCfg c i kvs';
          model_name = (if popped = VNone then table_get tab config else popped);
          arch = VCfg ''BaseConfig'' fresh [(''type'', model_name)];
          model = VCfg ''BaseConfig'' (fresh + 1) [(''model_config'', config), (''arch'', arch)]
      in Inr (VCfg ''BaseConfig'' (fresh + 2) [(''model'', model)]))"
| "wrap_config tab fresh (VDict kvs) =
     (let (popped, kvs') = dict_pop ''model_name'' kvs;
          config = VDict kvs';
          model_name = (if popped = VNone then table_get tab config else popped);
          arch = VCfg ''BaseConfig'' fresh [(''type'', model_name)];
          model = VCfg ''BaseConfig'' (fresh + 1) [(''model_config'', config), (''arch'', arch)]
      in Inr (VCfg ''BaseConfig'' (fresh + 2) [(''model'', model)]))"
| "wrap_config tab fresh (VList vs) = Inl TypeError"
| "wrap_config tab fresh v = Inl AttributeError"

text \<open>
  Lines 177-178 of \<^verbatim>\<open>from_config\<close>: the config object is parsed back and wrapped.
\<close>

definition AutoModel_round_trip :: "(nat \<times> val) list \<Rightarrow> nat \<Rightarrow> val \<Rightarrow> error + val" where
  "AutoModel_round_trip tab fresh config =
     (let inversed_config = inverse_parse_config config
      in wrap_config tab fresh inversed_config)"

text \<open>
  The chain of attribute reads \<^verbatim>\<open>r.k1.k2...\<close> on the result of a call; an error stays
  an error.
\<close>

definition attr_path :: "string list \<Rightarrow> error + val \<Rightarrow> error + val" where
  "attr_path ks r = fold (\<lambda>k r. case r of Inl e \<Rightarrow> Inl e | Inr v \<Rightarrow> attr k v) ks r"

text \<open>
  Lines 277-279 and 299-302: write the checkpoint into
  \<^verbatim>\<open>config_args.model.model_config\<close> and build the model from \<^verbatim>\<open>config_args.model\<close>. The
  update is in place, so the model tree that is built holds the updated config.
\<close>

definition AutoModel_build ::
  "('m, 'p, 't) collab \<Rightarrow> error + val \<Rightarrow> string \<Rightarrow> error + 'm" where
  "AutoModel_build cb loaded ckpt =
     (case loaded of
        Inl e \<Rightarrow> Inl e
      | Inr config_args \<Rightarrow>
          (case attr ''model'' config_args of
             Inl e \<Rightarrow> Inl e
           | Inr model \<Rightarrow>
               (case attr ''model_config'' model of
                  Inl e \<Rightarrow> Inl e
                | Inr mc \<Rightarrow>
                    (case update_val ''checkpoint_name_or_path'' (VStr ckpt) mc of
                       Inl e \<Rightarrow> Inl e
                     | Inr mc' \<Rightarrow>
                         (case update_val ''model_config'' mc' model of
                            Inl e \<Rightarrow> Inl e
                          | Inr model' \<Rightarrow> build_model cb model')))))"

definition AutoModel_from_pretrained ::
  "book \<Rightarrow> ('m, 'p, 't) collab \<Rightarrow> world \<Rightarrow> val \<Rightarrow> (error + 'm) \<times> world" where
  "AutoModel_from_pretrained bk cb w pretrained_model_name_or_dir =
     (case pretrained_model_name_or_dir of
        VStr s \<Rightarrow>
          let is_exist = path_exists (fs w) s; is_dir = isdir (fs w) s in
          if is_exist \<and> \<not> is_dir then (Inl (InvalidArgument s), w)
          else if \<not> is_exist \<and> \<not> is_supported (AutoModel_support_list bk) s
          then (Inl (UnsupportedIdentifier s (AutoModel_support_list bk)), w)
          else if is_dir then
            (case listdir (fs w) s of
               Inl e \<Rightarrow> (Inl e, w)
             | Inr names \<Rightarrow>
                 let yaml_list = filter (\<lambda>file. endswith file ''.yaml'') names;
                     ckpt_list = filter (\<lambda>file. endswith file ''.ckpt'') names in
                 if yaml_list = [] \<or> ckpt_list = [] then (Inl (NotFound s), w)
                 else
                   let yaml_file = path_join s (hd yaml_list);
                       ckpt_file = path_join s (hd ckpt_list) in
                   (AutoModel_build cb (MindFormerConfig (parse_yaml cb) (fs w) yaml_file)
                      ckpt_file, w))
          else
            (case fetch_yaml bk s w of
               (Inl e, w1) \<Rightarrow> (Inl e, w1)
             | (Inr yaml_file, w1) \<Rightarrow>
                 (AutoModel_build cb (MindFormerConfig (parse_yaml cb) (fs w1) yaml_file) s, w1))
      | _ \<Rightarrow> (Inl TypeError, w))"

definition AutoModel_get_support_list :: "book \<Rightarrow> support_list" where
  "AutoModel_get_support_list bk = AutoModel_support_list bk"

section \<open>AutoProcessor\<close>

text \<open>
  The class attribute is a deep copy of the model support list from which the family
  \<open>mae\<close> is popped (lines 335-336). \<^verbatim>\<open>dict.pop\<close> raises when the key is missing; the
  module cannot be imported then.
\<close>

definition AutoProcessor_class_body :: "book \<Rightarrow> error + support_list" where
  "AutoProcessor_class_body bk =
     (case map_of (model_support_list bk) ''mae'' of
        None \<Rightarrow> Inl KeyError
      | Some names \<Rightarrow> Inr (AList.delete ''mae'' (model_support_list bk)))"

definition AutoProcessor_support_list :: "book \<Rightarrow> support_list" where
  "AutoProcessor_support_list bk = AList.delete ''mae'' (model_support_list bk)"

text \<open>Lines 404-409: the processor is built from \<^verbatim>\<open>config_args.processor\<close>.\<close>

definition AutoProcessor_build ::
  "('m, 'p, 't) collab \<Rightarrow> fsys \<Rightarrow> string \<Rightarrow> error + val \<Rightarrow> error + 'p" where
  "AutoProcessor_build cb f yaml_name_or_path loaded =
     (case loaded of
        Inl e \<Rightarrow> Inl e
      | Inr config_args \<Rightarrow>
          let lib_path = (if isdir f yaml_name_or_path then Some yaml_name_or_path else None) in
          (case attr ''processor'' config_args of
             Inl e \<Rightarrow> Inl e
           | Inr pc \<Rightarrow> build_processor cb pc lib_path))"

definition AutoProcessor_from_pretrained ::
  "book \<Rightarrow> ('m, 'p, 't) collab \<Rightarrow> world \<Rightarrow> val \<Rightarrow> (error + 'p) \<times> world" where
  "AutoProcessor_from_pretrained bk cb w yaml_name_or_path =
     (case yaml_name_or_path of
        VStr s \<Rightarrow>
          let is_exist = path_exists (fs w) s; model_name = family s in
          if \<not> is_exist \<and> map_of (AutoProcessor_support_list bk) model_name = None
          then (Inl (UnsupportedIdentifier s (AutoProcessor_support_list bk)), w)
          else if is_exist then
            if isdir (fs w) s then
              (case listdir (fs w) s of
                 Inl e \<Rightarrow> (Inl e, w)
               | Inr names \<Rightarrow>
                   (case filter (\<lambda>file. endswith file ''.yaml'') names of
                      [] \<Rightarrow> (Inl IndexError, w)
                    | y # ys \<Rightarrow>
                        (AutoProcessor_build cb (fs w) s
                           (MindFormerConfig (parse_yaml cb) (fs w) (path_join s y)), w)))
            else (AutoProcessor_build cb (fs w) s (MindFormerConfig (parse_yaml cb) (fs w) s), w)
          else if \<not> is_supported (AutoProcessor_support_list bk) s
          then (Inl (UnsupportedIdentifier s (AutoProcessor_support_list bk)), w)
          else
            (case fetch_yaml bk s w of
               (Inl e, w1) \<Rightarrow> (Inl e, w1)
             | (Inr yaml_file, w1) \<Rightarrow>
                 (AutoProcessor_build cb (fs w1) s
                    (MindFormerConfig (parse_yaml cb) (fs w1) yaml_file), w1))
      | _ \<Rightarrow> (Inl TypeError, w))"

definition AutoProcessor_get_support_list :: "book \<Rightarrow> support_list" where
  "AutoProcessor_get_support_list bk = AutoProcessor_support_list bk"

section \<open>AutoTokenizer\<close>

definition AutoTokenizer_support_list :: "book \<Rightarrow> support_list" where
  "AutoTokenizer_support_list bk = tokenizer_support_list bk"

text \<open>The truth value of a Python value.\<close>

fun truthy :: "val \<Rightarrow> bool" where
  "truthy VNone = False"
| "truthy (VInt n) = (n \<noteq> 0)"
| "truthy (VStr s) = (s \<noteq> [])"
| "truthy (VList vs) = (vs \<noteq> [])"
| "truthy (VDict kvs) = (kvs \<noteq> [])"
| "truthy (VCfg c i kvs) = (kvs \<noteq> [])"

text \<open>
  \<^verbatim>\<open>k in v\<close> for a string \<open>k\<close>: a key of a mapping, an element of a list, a substring
  of a string; anything else is not iterable.
\<close>

fun py_in :: "string \<Rightarrow> val \<Rightarrow> error + bool" where
  "py_in k (VDict kvs) = Inr (k \<in> set (map fst kvs))"
| "py_in k (VCfg c i kvs) = Inr (k \<in> set (map fst kvs))"
| "py_in k (VList vs) = Inr (VStr k \<in> set vs)"
| "py_in k (VStr s) = Inr (sublist k s)"
| "py_in k v = Inl TypeError"

text \<open>\<^verbatim>\<open>v[k]\<close> for a string \<open>k\<close>: only a mapping can be indexed by a string.\<close>

fun item :: "string \<Rightarrow> val \<Rightarrow> error + val" where
  "item k (VDict kvs) = (case map_of kvs k of None \<Rightarrow> Inl KeyError | Some v \<Rightarrow> Inr v)"
| "item k (VCfg c i kvs) = (case map_of kvs k of None \<Rightarrow> Inl KeyError | Some v \<Rightarrow> Inr v)"
| "item k v = Inl TypeError"

text \<open>\<^verbatim>\<open>v.pop(k, None)\<close>, for the value it returns: only a mapping has this method.\<close>

fun pop_value :: "string \<Rightarrow> val \<Rightarrow> error + val" where
  "pop_value k (VDict kvs) = Inr (fst (dict_pop k kvs))"
| "pop_value k (VCfg c i kvs) = Inr (fst (dict_pop k kvs))"
| "pop_value k (VList vs) = Inl TypeError"
| "pop_value k v = Inl AttributeError"

text \<open>
  Lines 470-476: the guarded read of \<^verbatim>\<open>config['processor']['tokenizer']['type']\<close>; the
  conjunction is evaluated from the left and stops at the first false operand.
\<close>

definition class_name_of_config :: "val \<Rightarrow> error + val" where
  "class_name_of_config config =
     (if \<not> truthy config then Inr VNone
      else case py_in ''processor'' config of
        Inl e \<Rightarrow> Inl e
      | Inr False \<Rightarrow> Inr VNone
      | Inr True \<Rightarrow>
          (case item ''processor'' config of
             Inl e \<Rightarrow> Inl e
           | Inr pc \<Rightarrow>
               (case py_in ''tokenizer'' pc of
                  Inl e \<Rightarrow> Inl e
                | Inr False \<Rightarrow> Inr VNone
                | Inr True \<Rightarrow>
                    (case item ''tokenizer'' pc of
                       Inl e \<Rightarrow> Inl e
                     | Inr tc \<Rightarrow>
                         (case py_in ''type'' tc of
                            Inl e \<Rightarrow> Inl e
                          | Inr False \<Rightarrow> Inr VNone
                          | Inr True \<Rightarrow> pop_value ''type'' tc)))))"

text \<open>\<^verbatim>\<open>_get_class_name_from_yaml\<close> (lines 442-476).\<close>

definition get_class_name_from_yaml ::
  "('m, 'p, 't) collab \<Rightarrow> fsys \<Rightarrow> string \<Rightarrow> error + val" where
  "get_class_name_from_yaml cb f yaml_name_or_path =
     (let is_exist = path_exists f yaml_name_or_path;
          is_dir = isdir f yaml_name_or_path;
          is_file = isfile f yaml_name_or_path in
      if \<not> is_file then
        if \<not> is_exist then Inl (InvalidArgument yaml_name_or_path)
        else if \<not> is_dir then Inl (InvalidArgument yaml_name_or_path)
        else
          (case listdir f yaml_name_or_path of
             Inl e \<Rightarrow> Inl e
           | Inr names \<Rightarrow>
               (case filter (\<lambda>file. endswith file ''.yaml'') names of
                  [] \<Rightarrow> Inr VNone
                | y # ys \<Rightarrow>
                    (case MindFormerConfig (parse_yaml cb) f (path_join yaml_name_or_path y) of
                       Inl e \<Rightarrow> Inl e
                     | Inr config \<Rightarrow> class_name_of_config config)))
      else
        (case MindFormerConfig (parse_yaml cb) f yaml_name_or_path of
           Inl e \<Rightarrow> Inl e
         | Inr config \<Rightarrow> class_name_of_config config))"

text \<open>\<^verbatim>\<open>_get_class_name_from_tokenizer_config_file\<close> (lines 478-498).\<close>

definition get_class_name_from_tokenizer_config_file ::
  "('m, 'p, 't) collab \<Rightarrow> fsys \<Rightarrow> string \<Rightarrow> error + val" where
  "get_class_name_from_tokenizer_config_file cb f yaml_name_or_path =
     (let tokenizer_config_path = path_join yaml_name_or_path ''tokenizer_config.json'' in
      if \<not> path_exists f tokenizer_config_path then Inl (NotFound tokenizer_config_path)
      else
        (case node_at f tokenizer_config_path of
           Some (File content) \<Rightarrow>
             (case parse_json cb content of
                None \<Rightarrow> Inl ParseError
              | Some config_kwargs \<Rightarrow>
                  (case pop_value ''tokenizer_class'' config_kwargs of
                     Inl e \<Rightarrow> Inl e
                   | Inr class_name \<Rightarrow>
                       if \<not> truthy class_name then Inl (MissingField tokenizer_config_path)
                       else Inr class_name))
         | _ \<Rightarrow> Inl OSError))"

text \<open>
  \<^verbatim>\<open>AutoTokenizer.from_pretrained\<close> (lines 500-548). \<^verbatim>\<open>sum(d.values(), [])\<close> is the
  concatenation of the lists of all families.
\<close>

definition AutoTokenizer_from_pretrained ::
  "book \<Rightarrow> ('m, 'p, 't) collab \<Rightarrow> world \<Rightarrow> val \<Rightarrow> (error + 't) \<times> world" where
  "AutoTokenizer_from_pretrained bk cb w yaml_name_or_path =
     (case yaml_name_or_path of
        VStr s \<Rightarrow>
          if s \<in> set (concat (map snd (AutoTokenizer_support_list bk))) then
            (case fetch_yaml bk s w of
               (Inl e, w1) \<Rightarrow> (Inl e, w1)
             | (Inr yaml_file, w1) \<Rightarrow>
                 (case get_class_name_from_yaml cb (fs w1) yaml_file of
                    Inl e \<Rightarrow> (Inl e, w1)
                  | Inr class_name \<Rightarrow> (tokenizer_from_pretrained cb class_name s, w1)))
          else if isdir (fs w) s then
            (case get_class_name_from_yaml cb (fs w) s of
               Inl e \<Rightarrow> (Inl e, w)
             | Inr class_name \<Rightarrow>
                 if \<not> truthy class_name then
                   (case get_class_name_from_tokenizer_config_file cb (fs w) s of
                      Inl e \<Rightarrow> (Inl e, w)
                    | Inr class_name' \<Rightarrow> (tokenizer_from_pretrained cb class_name' s, w))
                 else (tokenizer_from_pretrained cb class_name s, w))
          else (Inl (NotFound s), w)
      | _ \<Rightarrow> (Inl TypeError, w))"

definition AutoTokenizer_get_support_list :: "book \<Rightarrow> support_list" where
  "AutoTokenizer_get_support_list bk = AutoTokenizer_support_list bk"

section \<open>A sample installation\<close>

text \<open>
  A project that bundles the default yaml of \<open>bert_base_uncased\<close> and none for the
  family \<open>mae\<close>, an empty cache, and a working directory with a text file, a saved
  model, an empty directory and two directories that hold a \<open>tokenizer_config.json\<close>
  (one of them without \<open>tokenizer_class\<close>). The parsers know the contents \<open>bert\<close>,
  \<open>tok\<close> and \<open>none\<close>; the builders return what they are given. In the second world the
  working directory also holds a directory named like the supported identifier; in the
  third a regular file stands where the cache root belongs.
\<close>

definition ex_book :: book where
  "ex_book = \<lparr>model_support_list =
                 [(''bert'', [''bert_base_uncased'']), (''mae'', [''mae_vit_base_p16''])],
              tokenizer_support_list = [(''bert'', [''bert_base_uncased''])],
              checkpoint_download_folder = ''./checkpoint_download'',
              project_path = ''/proj''\<rparr>"

definition ex_tree :: val where
  "ex_tree =
     VDict [(''model'', VDict [(''model_config'', VDict [(''hidden_size'', VInt 768)]),
                               (''arch'', VDict [(''type'', VStr ''BertModel'')])]),
            (''processor'', VDict [(''tokenizer'', VDict [(''type'', VStr ''BertTokenizer'')])])]"

definition ex_collab :: "(val, val, val) collab" where
  "ex_collab =
     \<lparr>parse_yaml = (\<lambda>c. if c = ''bert'' then Some ex_tree else None),
      parse_json = (\<lambda>c. if c = ''tok'' then Some (VDict [(''tokenizer_class'', VStr ''BertTokenizer'')])
                          else if c = ''none'' then Some (VDict [])
                          else None),
      build_model_config = (\<lambda>v. case v of VDict kvs \<Rightarrow> Inr (VCfg ''BertConfig'' 7 kvs) | _ \<Rightarrow> Inl BuildError),
      build_model = (\<lambda>v. Inr v),
      build_processor = (\<lambda>v lib. Inr v),
      tokenizer_from_pretrained = (\<lambda>c s. if truthy c then Inr c else Inl BuildError)\<rparr>"

definition ex_fs :: fsys where
  "ex_fs =
     [([''/'', ''proj''], Dir),
      ([''/'', ''proj'', ''configs''], Dir),
      ([''/'', ''proj'', ''configs'', ''bert''], Dir),
      ([''/'', ''proj'', ''configs'', ''bert'', ''model_config''], Dir),
      ([''/'', ''proj'', ''configs'', ''bert'', ''model_config'', ''bert_base_uncased.yaml''],
         File ''bert''),
      ([''notes.txt''], File ''hello''),
      ([''saved''], Dir),
      ([''saved'', ''model.yaml''], File ''bert''),
      ([''saved'', ''other.yaml''], File ''junk''),
      ([''saved'', ''weights.ckpt''], File ''w''),
      ([''empty''], Dir),
      ([''tok''], Dir),
      ([''tok'', ''tokenizer_config.json''], File ''tok''),
      ([''tok2''], Dir),
      ([''tok2'', ''tokenizer_config.json''], File ''none'')]"

definition ex_world_named :: world where
  "ex_world_named = \<lparr>fs = ([''bert_base_uncased''], Dir) # ex_fs, calls = [], config_to_name = []\<rparr>"

definition ex_world_blocked :: world where
  "ex_world_blocked =
     \<lparr>fs = ([''checkpoint_download''], File ''x'') # ex_fs, calls = [], config_to_name = []\<rparr>"

definition ex_world :: world where
  "ex_world = \<lparr>fs = ex_fs, calls = [], config_to_name = []\<rparr>"

section \<open>Properties\<close>

subsection \<open>Strings and paths\<close>

lemma split_on_nonempty: "split_on sep s \<noteq> []"
  by (induction s) (auto split: list.splits)

lemma hd_split_on: "hd (split_on sep s) = takeWhile (\<lambda>c. c \<noteq> sep) s"
proof (induction s)
  case Nil
  show ?case by simp
next
  case (Cons c cs)
  obtain w ws where "split_on sep cs = w # ws"
    using split_on_nonempty [of sep cs] by (cases "split_on sep cs") auto
  with Cons show ?case by simp
qed

lemma family_takeWhile: "family s = takeWhile (\<lambda>c. c \<noteq> CHR ''_'') s"
  by (simp add: family_def hd_split_on)

lemma isdir_exists: "isdir f s \<Longrightarrow> path_exists f s"
  by (simp add: isdir_def path_exists_def)

subsection \<open>Names that are not supported\<close>

text \<open>
  C3: for every string that names no existing path, \<^verbatim>\<open>AutoConfig.from_pretrained\<close> and
  \<^verbatim>\<open>AutoModel.from_pretrained\<close> fail with the unsupported-identifier error, which carries
  the support list, unless the substring before the first \<open>_\<close> is a key of the support
  list and the identifier is listed under that key. Nothing is changed.
\<close>

theorem C3_unsupported_identifier:
  assumes "\<not> path_exists (fs w) s"
    and "\<not> (\<exists>names. map_of (model_support_list bk) (takeWhile (\<lambda>c. c \<noteq> CHR ''_'') s) = Some names
              \<and> s \<in> set names)"
  shows "AutoConfig_from_pretrained bk cb w (VStr s)
           = (Inl (UnsupportedIdentifier s (model_support_list bk)), w)
       \<and> AutoModel_from_pretrained bk cb w (VStr s)
           = (Inl (UnsupportedIdentifier s (model_support_list bk)), w)"
proof -
  from assms(2) have unsup: "\<not> is_supported (model_support_list bk) s"
    by (auto simp: is_supported_def family_takeWhile split: option.splits)
  from assms(1) have nodir: "\<not> isdir (fs w) s"
    using isdir_exists by blast
  have "AutoConfig_from_pretrained bk cb w (VStr s)
          = (Inl (UnsupportedIdentifier s (model_support_list bk)), w)"
    using assms(1) unsup by (simp add: AutoConfig_from_pretrained_def AutoConfig_support_list_def)
  moreover have "AutoModel_from_pretrained bk cb w (VStr s)
          = (Inl (UnsupportedIdentifier s (model_support_list bk)), w)"
    using assms(1) unsup nodir
    by (simp add: AutoModel_from_pretrained_def AutoModel_support_list_def)
  ultimately show ?thesis by simp
qed

theorem C3_unsupported_identifier_witness:
  "\<not> path_exists (fs ex_world) ''doesnotexist_1''
   \<and> AutoConfig_from_pretrained ex_book ex_collab ex_world (VStr ''doesnotexist_1'')
       = (Inl (UnsupportedIdentifier ''doesnotexist_1'' (model_support_list ex_book)), ex_world)
   \<and> AutoModel_from_pretrained ex_book ex_collab ex_world (VStr ''doesnotexist_1'')
       = (Inl (UnsupportedIdentifier ''doesnotexist_1'' (model_support_list ex_book)), ex_world)"
proof -
  have h1: "\<not> path_exists (fs ex_world) ''doesnotexist_1''"
    by code_simp
  have h2: "\<not> (\<exists>names. map_of (model_support_list ex_book)
                (takeWhile (\<lambda>c. c \<noteq> CHR ''_'') ''doesnotexist_1'') = Some names
              \<and> ''doesnotexist_1'' \<in> set names)"
    by (simp add: ex_book_def)
  show ?thesis
    using h1 C3_unsupported_identifier [OF h1 h2, of ex_collab] by simp
qed

subsection \<open>Existing paths\<close>

text \<open>
  C7: for every existing path that does not end in \<open>.yaml\<close>,
  \<^verbatim>\<open>AutoConfig.from_pretrained\<close> fails with the invalid-argument error; no config is
  returned and the state is as before.
\<close>

theorem C7_existing_non_yaml_rejected:
  assumes "path_exists (fs w) s" and "\<not> endswith s ''.yaml''"
  shows "AutoConfig_from_pretrained bk cb w (VStr s) = (Inl (InvalidArgument s), w)"
  using assms by (simp add: AutoConfig_from_pretrained_def)

theorem C7_existing_non_yaml_rejected_witness:
  "path_exists (fs ex_world) ''notes.txt'' \<and> \<not> endswith ''notes.txt'' ''.yaml''
   \<and> AutoConfig_from_pretrained ex_book ex_collab ex_world (VStr ''notes.txt'')
       = (Inl (InvalidArgument ''notes.txt''), ex_world)"
proof -
  have h1: "path_exists (fs ex_world) ''notes.txt''"
    by code_simp
  have h2: "\<not> endswith ''notes.txt'' ''.yaml''"
    by code_simp
  show ?thesis
    using h1 h2 C7_existing_non_yaml_rejected [OF h1 h2, of ex_book ex_collab] by simp
qed

subsection \<open>The round trip of a config object\<close>

lemma map_of_inverse_items:
  "map_of (map (\<lambda>kv. (fst kv, f (snd kv))) kvs) k = map_option f (map_of kvs k)"
  by (induction kvs) auto

text \<open>
  C2, as the code has it: for every acyclic config object (every value \<open>VCfg c i kvs\<close>
  is one), the tree that \<^verbatim>\<open>_wrap_config\<close> builds
  from its inverse parse has the class name of the object in \<open>model.model_config.type\<close>.
  The field \<open>model.arch.type\<close> holds what was popped from the key \<open>model_name\<close>, and when
  that is absent or \<^verbatim>\<open>None\<close>, the name the table holds for the identity of the object
  (\<^verbatim>\<open>None\<close> when it holds none).
\<close>

theorem C2_round_trip:
  "attr_path [''model'', ''model_config'', ''type'']
     (AutoModel_round_trip tab fresh (VCfg c i kvs)) = Inr (VStr c)
   \<and> attr_path [''model'', ''arch'', ''type'']
       (AutoModel_round_trip tab fresh (VCfg c i kvs))
     = Inr (let popped = (case map_of kvs ''model_name'' of
                            None \<Rightarrow> VNone
                          | Some v \<Rightarrow> inverse_parse_config v)
            in if popped = VNone
               then (case map_of tab i of None \<Rightarrow> VNone | Some name \<Rightarrow> name)
               else popped)"
  by (simp add: attr_path_def AutoModel_round_trip_def dict_pop_def table_get_def
      map_of_inverse_items update_conv' delete_conv' Let_def split: option.splits)

text \<open>
  The claim as it was stated fails: a \<^verbatim>\<open>BertConfig\<close> that \<^verbatim>\<open>AutoConfig.from_pretrained\<close>
  recorded under the model name \<^verbatim>\<open>BertModel\<close> comes back with \<open>model.arch.type\<close> equal to
  \<^verbatim>\<open>BertModel\<close>, not to its class name.
\<close>

theorem C2_counterexample:
  "attr_path [''model'', ''arch'', ''type'']
     (AutoModel_round_trip [(7, VStr ''BertModel'')] 100
        (VCfg ''BertConfig'' 7 [(''hidden_size'', VInt 768)]))
     = Inr (VStr ''BertModel'')
   \<and> attr_path [''model'', ''arch'', ''type'']
       (AutoModel_round_trip [(7, VStr ''BertModel'')] 100
          (VCfg ''BertConfig'' 7 [(''hidden_size'', VInt 768)]))
     \<noteq> Inr (VStr ''BertConfig'')"
  by (simp add: attr_path_def AutoModel_round_trip_def dict_pop_def table_get_def)

subsection \<open>The support lists\<close>

text \<open>
  C9, as the code has it: \<^verbatim>\<open>get_support_list\<close> returns the class attribute. For
  \<^verbatim>\<open>AutoConfig\<close> and \<^verbatim>\<open>AutoModel\<close> that is the model support list; for \<^verbatim>\<open>AutoProcessor\<close> it
  is a copy of the model support list without the family \<open>mae\<close> (the class body raises
  when there is no such family); for \<^verbatim>\<open>AutoTokenizer\<close> it is the tokenizer support list.
\<close>

theorem C9_support_lists:
  "AutoConfig_get_support_list bk = model_support_list bk
   \<and> AutoModel_get_support_list bk = model_support_list bk
   \<and> AutoProcessor_get_support_list bk = AList.delete ''mae'' (model_support_list bk)
   \<and> map_of (AutoProcessor_get_support_list bk) = (map_of (model_support_list bk))(''mae'' := None)
   \<and> AutoProcessor_class_body bk
       = (if ''mae'' \<in> fst ` set (model_support_list bk)
          then Inr (AutoProcessor_get_support_list bk) else Inl KeyError)
   \<and> AutoTokenizer_get_support_list bk = tokenizer_support_list bk"
proof -
  have "AutoProcessor_class_body bk
       = (if ''mae'' \<in> fst ` set (model_support_list bk)
          then Inr (AutoProcessor_get_support_list bk) else Inl KeyError)"
    by (simp add: AutoProcessor_class_body_def AutoProcessor_get_support_list_def
        AutoProcessor_support_list_def map_of_eq_None_iff [symmetric] split: option.splits)
  then show ?thesis
    by (simp add: AutoConfig_get_support_list_def AutoConfig_support_list_def
        AutoModel_get_support_list_def AutoModel_support_list_def
        AutoProcessor_get_support_list_def AutoProcessor_support_list_def
        AutoTokenizer_get_support_list_def AutoTokenizer_support_list_def delete_conv')
qed

text \<open>
  The four entry points do not return the same list: in the sample installation the
  list of \<^verbatim>\<open>AutoProcessor\<close> lacks the family \<open>mae\<close>.
\<close>

theorem C9_counterexample:
  "\<not> (AutoConfig_get_support_list ex_book = model_support_list ex_book
      \<and> AutoModel_get_support_list ex_book = model_support_list ex_book
      \<and> AutoProcessor_get_support_list ex_book = model_support_list ex_book
      \<and> AutoTokenizer_get_support_list ex_book = model_support_list ex_book)"
  by (simp add: ex_book_def AutoProcessor_get_support_list_def AutoProcessor_support_list_def)

subsection \<open>Directories\<close>

lemma isdir_listdir: "isdir f s \<Longrightarrow> \<exists>names. listdir f s = Inr names"
  by (simp add: listdir_def)

text \<open>
  C10: for an existing directory, \<^verbatim>\<open>AutoProcessor.from_pretrained\<close> reads the first element
  of the list of yaml files without a guard. When the directory holds no file ending in
  \<open>.yaml\<close> the call fails with the index error (not with a not-found error); the read
  succeeds exactly when the list has a first element, and the config is then loaded from
  that file.
\<close>

theorem C10_processor_directory_without_yaml:
  assumes "isdir (fs w) s"
  shows "\<exists>names. listdir (fs w) s = Inr names
     \<and> (filter (\<lambda>file. endswith file ''.yaml'') names = []
          \<longrightarrow> AutoProcessor_from_pretrained bk cb w (VStr s) = (Inl IndexError, w))
     \<and> (\<forall>y ys. filter (\<lambda>file. endswith file ''.yaml'') names = y # ys
          \<longrightarrow> AutoProcessor_from_pretrained bk cb w (VStr s)
              = (AutoProcessor_build cb (fs w) s
                   (MindFormerConfig (parse_yaml cb) (fs w) (path_join s y)), w))"
proof -
  from assms obtain names where names: "listdir (fs w) s = Inr names"
    using isdir_listdir by blast
  from assms have ex: "path_exists (fs w) s"
    by (rule isdir_exists)
  show ?thesis
    using assms ex names by (auto simp: AutoProcessor_from_pretrained_def)
qed

theorem C10_processor_directory_without_yaml_witness:
  "isdir (fs ex_world) ''empty''
   \<and> listdir (fs ex_world) ''empty'' = Inr []
   \<and> AutoProcessor_from_pretrained ex_book ex_collab ex_world (VStr ''empty'')
       = (Inl IndexError, ex_world)
   \<and> AutoProcessor_from_pretrained ex_book ex_collab ex_world (VStr ''empty'')
       \<noteq> (Inl (NotFound ''empty''), ex_world)"
proof -
  have h: "isdir (fs ex_world) ''empty''"
    by code_simp
  have l: "listdir (fs ex_world) ''empty'' = Inr []"
    by code_simp
  show ?thesis
    using h l C10_processor_directory_without_yaml [OF h, of ex_book ex_collab] by simp
qed

lemma AutoModel_build_inject:
  assumes "map_of kvs ''model'' = Some (VDict m)" and "map_of m ''model_config'' = Some (VDict mc)"
  shows "AutoModel_build cb (Inr (VDict kvs)) ck
     = build_model cb (VDict (AList.update ''model_config''
         (VDict (AList.update ''checkpoint_name_or_path'' (VStr ck) mc)) m))"
  using assms by (simp add: AutoModel_build_def)

text \<open>
  C5: when the identifier given to \<^verbatim>\<open>AutoModel.from_pretrained\<close> is an existing directory,
  the entries ending in \<open>.yaml\<close> and those ending in \<open>.ckpt\<close> are collected; the call
  fails with the not-found error when either list is empty; otherwise the config is loaded
  from the first yaml, and the path of the first checkpoint is written under
  \<open>checkpoint_name_or_path\<close> into the model config of the tree the model is built from.
\<close>

theorem C5_model_from_directory:
  assumes "isdir (fs w) s"
  shows "\<exists>names. listdir (fs w) s = Inr names
     \<and> (filter (\<lambda>file. endswith file ''.yaml'') names = []
          \<or> filter (\<lambda>file. endswith file ''.ckpt'') names = []
          \<longrightarrow> AutoModel_from_pretrained bk cb w (VStr s) = (Inl (NotFound s), w))
     \<and> (\<forall>y ys c cs. filter (\<lambda>file. endswith file ''.yaml'') names = y # ys
            \<and> filter (\<lambda>file. endswith file ''.ckpt'') names = c # cs
          \<longrightarrow> AutoModel_from_pretrained bk cb w (VStr s)
              = (AutoModel_build cb (MindFormerConfig (parse_yaml cb) (fs w) (path_join s y))
                   (path_join s c), w))
     \<and> (\<forall>kvs m mc ck. map_of kvs ''model'' = Some (VDict m)
            \<and> map_of m ''model_config'' = Some (VDict mc)
          \<longrightarrow> AutoModel_build cb (Inr (VDict kvs)) ck
              = build_model cb (VDict (AList.update ''model_config''
                  (VDict (AList.update ''checkpoint_name_or_path'' (VStr ck) mc)) m))
            \<and> attr_path [''model_config'', ''checkpoint_name_or_path'']
                (Inr (VDict (AList.update ''model_config''
                  (VDict (AList.update ''checkpoint_name_or_path'' (VStr ck) mc)) m)))
              = Inr (VStr ck))"
proof -
  from assms obtain names where names: "listdir (fs w) s = Inr names"
    using isdir_listdir by blast
  from assms have ex: "path_exists (fs w) s"
    by (rule isdir_exists)
  have a: "filter (\<lambda>file. endswith file ''.yaml'') names = []
          \<or> filter (\<lambda>file. endswith file ''.ckpt'') names = []
          \<longrightarrow> AutoModel_from_pretrained bk cb w (VStr s) = (Inl (NotFound s), w)"
    using assms ex names by (auto simp: AutoModel_from_pretrained_def Let_def)
  have b: "\<forall>y ys c cs. filter (\<lambda>file. endswith file ''.yaml'') names = y # ys
            \<and> filter (\<lambda>file. endswith file ''.ckpt'') names = c # cs
          \<longrightarrow> AutoModel_from_pretrained bk cb w (VStr s)
              = (AutoModel_build cb (MindFormerConfig (parse_yaml cb) (fs w) (path_join s y))
                   (path_join s c), w)"
    using assms ex names by (simp add: AutoModel_from_pretrained_def Let_def)
  have c: "\<forall>kvs m mc ck. map_of kvs ''model'' = Some (VDict m)
            \<and> map_of m ''model_config'' = Some (VDict mc)
          \<longrightarrow> AutoModel_build cb (Inr (VDict kvs)) ck
              = build_model cb (VDict (AList.update ''model_config''
                  (VDict (AList.update ''checkpoint_name_or_path'' (VStr ck) mc)) m))
            \<and> attr_path [''model_config'', ''checkpoint_name_or_path'']
                (Inr (VDict (AList.update ''model_config''
                  (VDict (AList.update ''checkpoint_name_or_path'' (VStr ck) mc)) m)))
              = Inr (VStr ck)"
    by (simp add: AutoModel_build_inject attr_path_def update_conv')
  from names a b c show ?thesis by blast
qed

theorem C5_model_from_directory_witness:
  "isdir (fs ex_world) ''saved''
   \<and> listdir (fs ex_world) ''saved'' = Inr [''model.yaml'', ''other.yaml'', ''weights.ckpt'']
   \<and> AutoModel_from_pretrained ex_book ex_collab ex_world (VStr ''saved'')
       = (AutoModel_build ex_collab
            (MindFormerConfig (parse_yaml ex_collab) (fs ex_world) ''saved/model.yaml'')
            ''saved/weights.ckpt'', ex_world)
   \<and> AutoModel_build ex_collab
        (MindFormerConfig (parse_yaml ex_collab) (fs ex_world) ''saved/model.yaml'')
        ''saved/weights.ckpt''
       = Inr (VDict [(''model_config'',
                      VDict [(''hidden_size'', VInt 768),
                             (''checkpoint_name_or_path'', VStr ''saved/weights.ckpt'')]),
                     (''arch'', VDict [(''type'', VStr ''BertModel'')])])"
proof -
  have h: "isdir (fs ex_world) ''saved''"
    by code_simp
  have l: "listdir (fs ex_world) ''saved'' = Inr [''model.yaml'', ''other.yaml'', ''weights.ckpt'']"
    by code_simp
  have j: "path_join ''saved'' ''model.yaml'' = ''saved/model.yaml''"
          "path_join ''saved'' ''weights.ckpt'' = ''saved/weights.ckpt''"
    by code_simp+
  have e: "filter (\<lambda>file. endswith file ''.yaml'') [''model.yaml'', ''other.yaml'', ''weights.ckpt'']
             = [''model.yaml'', ''other.yaml'']"
          "filter (\<lambda>file. endswith file ''.ckpt'') [''model.yaml'', ''other.yaml'', ''weights.ckpt'']
             = [''weights.ckpt'']"
    by code_simp+
  have b: "AutoModel_build ex_collab
        (MindFormerConfig (parse_yaml ex_collab) (fs ex_world) ''saved/model.yaml'')
        ''saved/weights.ckpt''
       = Inr (VDict [(''model_config'',
                      VDict [(''hidden_size'', VInt 768),
                             (''checkpoint_name_or_path'', VStr ''saved/weights.ckpt'')]),
                     (''arch'', VDict [(''type'', VStr ''BertModel'')])])"
    by code_simp
  from C5_model_from_directory [OF h, of ex_book ex_collab]
  have "AutoModel_from_pretrained ex_book ex_collab ex_world (VStr ''saved'')
       = (AutoModel_build ex_collab
            (MindFormerConfig (parse_yaml ex_collab) (fs ex_world) ''saved/model.yaml'')
            ''saved/weights.ckpt'', ex_world)"
    using l e j by auto
  with h l b show ?thesis by simp
qed

subsection \<open>The tokenizer of a directory\<close>

lemma key_in_iff: "k \<in> fst ` set kvs \<longleftrightarrow> map_of kvs k \<noteq> None"
  by (simp add: map_of_eq_None_iff)

lemma class_name_of_config_none:
  assumes "map_of kvs ''processor'' = None
     \<or> (\<exists>pc. map_of kvs ''processor'' = Some (VDict pc)
           \<and> (map_of pc ''tokenizer'' = None
                \<or> (\<exists>tc. map_of pc ''tokenizer'' = Some (VDict tc) \<and> map_of tc ''type'' = None)))"
  shows "class_name_of_config (VDict kvs) = Inr VNone"
  using assms by (auto simp: class_name_of_config_def key_in_iff)

lemma isdir_not_isfile: "isdir f s \<Longrightarrow> \<not> isfile f s"
  by (simp add: isdir_def isfile_def)

lemma yaml_gives_no_class_name:
  assumes "isdir f s" and "listdir f s = Inr names"
    and "filter (\<lambda>file. endswith file ''.yaml'') names = []
       \<or> (\<exists>y ys kvs. filter (\<lambda>file. endswith file ''.yaml'') names = y # ys
            \<and> MindFormerConfig (parse_yaml cb) f (path_join s y) = Inr (VDict kvs)
            \<and> (map_of kvs ''processor'' = None
               \<or> (\<exists>pc. map_of kvs ''processor'' = Some (VDict pc)
                    \<and> (map_of pc ''tokenizer'' = None
                       \<or> (\<exists>tc. map_of pc ''tokenizer'' = Some (VDict tc)
                            \<and> map_of tc ''type'' = None)))))"
  shows "get_class_name_from_yaml cb f s = Inr VNone"
proof -
  from assms(1) have nf: "\<not> isfile f s" and ex: "path_exists f s"
    by (simp_all add: isdir_not_isfile isdir_exists)
  from assms(3) show ?thesis
  proof
    assume "filter (\<lambda>file. endswith file ''.yaml'') names = []"
    with nf ex assms(1,2) show ?thesis
      by (simp add: get_class_name_from_yaml_def)
  next
    assume "\<exists>y ys kvs. filter (\<lambda>file. endswith file ''.yaml'') names = y # ys
            \<and> MindFormerConfig (parse_yaml cb) f (path_join s y) = Inr (VDict kvs)
            \<and> (map_of kvs ''processor'' = None
               \<or> (\<exists>pc. map_of kvs ''processor'' = Some (VDict pc)
                    \<and> (map_of pc ''tokenizer'' = None
                       \<or> (\<exists>tc. map_of pc ''tokenizer'' = Some (VDict tc)
                            \<and> map_of tc ''type'' = None))))"
    then obtain y ys kvs where y: "filter (\<lambda>file. endswith file ''.yaml'') names = y # ys"
      and load: "MindFormerConfig (parse_yaml cb) f (path_join s y) = Inr (VDict kvs)"
      and none: "map_of kvs ''processor'' = None
               \<or> (\<exists>pc. map_of kvs ''processor'' = Some (VDict pc)
                    \<and> (map_of pc ''tokenizer'' = None
                       \<or> (\<exists>tc. map_of pc ''tokenizer'' = Some (VDict tc)
                            \<and> map_of tc ''type'' = None)))"
      by blast
    from none have "class_name_of_config (VDict kvs) = Inr VNone"
      by (rule class_name_of_config_none)
    with nf ex assms(1,2) y load show ?thesis
      by (simp add: get_class_name_from_yaml_def)
  qed
qed

text \<open>
  C6, as the code has it: let the identifier given to \<^verbatim>\<open>AutoTokenizer.from_pretrained\<close> be
  an existing directory and not one of the supported names. When the directory holds no
  yaml, or its first yaml parses to a tree without \<open>processor.tokenizer.type\<close> (no
  \<open>processor\<close>, or a mapping \<open>processor\<close> without \<open>tokenizer\<close>, or a mapping \<open>tokenizer\<close>
  without \<open>type\<close>), the class name comes from \<open>tokenizer_config.json\<close> in the directory:
  the call fails with the not-found error when that file does not exist, with the
  missing-field error when it parses to a mapping without \<open>tokenizer_class\<close>, and builds
  the tokenizer of the class named there otherwise.
\<close>

theorem C6_tokenizer_directory_fallback:
  assumes "isdir (fs w) s"
    and "s \<notin> set (concat (map snd (tokenizer_support_list bk)))"
    and "listdir (fs w) s = Inr names"
    and "filter (\<lambda>file. endswith file ''.yaml'') names = []
       \<or> (\<exists>y ys kvs. filter (\<lambda>file. endswith file ''.yaml'') names = y # ys
            \<and> MindFormerConfig (parse_yaml cb) (fs w) (path_join s y) = Inr (VDict kvs)
            \<and> (map_of kvs ''processor'' = None
               \<or> (\<exists>pc. map_of kvs ''processor'' = Some (VDict pc)
                    \<and> (map_of pc ''tokenizer'' = None
                       \<or> (\<exists>tc. map_of pc ''tokenizer'' = Some (VDict tc)
                            \<and> map_of tc ''type'' = None)))))"
  shows "(\<not> path_exists (fs w) (path_join s ''tokenizer_config.json'')
          \<longrightarrow> AutoTokenizer_from_pretrained bk cb w (VStr s)
              = (Inl (NotFound (path_join s ''tokenizer_config.json'')), w))
     \<and> (\<forall>content kw. node_at (fs w) (path_join s ''tokenizer_config.json'') = Some (File content)
            \<and> parse_json cb content = Some (VDict kw)
            \<and> map_of kw ''tokenizer_class'' = None
          \<longrightarrow> AutoTokenizer_from_pretrained bk cb w (VStr s)
              = (Inl (MissingField (path_join s ''tokenizer_config.json'')), w))
     \<and> (\<forall>content kw cls. node_at (fs w) (path_join s ''tokenizer_config.json'') = Some (File content)
            \<and> parse_json cb content = Some (VDict kw)
            \<and> map_of kw ''tokenizer_class'' = Some cls \<and> truthy cls
          \<longrightarrow> AutoTokenizer_from_pretrained bk cb w (VStr s)
              = (tokenizer_from_pretrained cb cls s, w))"
proof -
  have none: "get_class_name_from_yaml cb (fs w) s = Inr VNone"
    using assms(1,3,4) by (rule yaml_gives_no_class_name)
  have step: "AutoTokenizer_from_pretrained bk cb w (VStr s)
      = (case get_class_name_from_tokenizer_config_file cb (fs w) s of
           Inl e \<Rightarrow> (Inl e, w)
         | Inr class_name' \<Rightarrow> (tokenizer_from_pretrained cb class_name' s, w))"
    using assms(1,2) none
    by (simp add: AutoTokenizer_from_pretrained_def AutoTokenizer_support_list_def)
  show ?thesis
    unfolding step
    by (auto simp: get_class_name_from_tokenizer_config_file_def path_exists_def dict_pop_def)
qed

theorem C6_tokenizer_directory_fallback_witness:
  "isdir (fs ex_world) ''empty''
   \<and> ''empty'' \<notin> set (concat (map snd (tokenizer_support_list ex_book)))
   \<and> listdir (fs ex_world) ''empty'' = Inr []
   \<and> \<not> path_exists (fs ex_world) (path_join ''empty'' ''tokenizer_config.json'')
   \<and> AutoTokenizer_from_pretrained ex_book ex_collab ex_world (VStr ''empty'')
       = (Inl (NotFound ''empty/tokenizer_config.json''), ex_world)
   \<and> AutoTokenizer_from_pretrained ex_book ex_collab ex_world (VStr ''tok2'')
       = (Inl (MissingField ''tok2/tokenizer_config.json''), ex_world)
   \<and> AutoTokenizer_from_pretrained ex_book ex_collab ex_world (VStr ''tok'')
       = (Inr (VStr ''BertTokenizer''), ex_world)"
proof -
  have sup: "''empty'' \<notin> set (concat (map snd (tokenizer_support_list ex_book)))"
    "''tok2'' \<notin> set (concat (map snd (tokenizer_support_list ex_book)))"
    "''tok'' \<notin> set (concat (map snd (tokenizer_support_list ex_book)))"
    by code_simp+
  have dirs: "isdir (fs ex_world) ''empty''" "isdir (fs ex_world) ''tok2''"
    "isdir (fs ex_world) ''tok''"
    by code_simp+
  have l1: "listdir (fs ex_world) ''empty'' = Inr []"
    by code_simp
  have l2: "listdir (fs ex_world) ''tok2'' = Inr [''tokenizer_config.json'']"
    by code_simp
  have l3: "listdir (fs ex_world) ''tok'' = Inr [''tokenizer_config.json'']"
    by code_simp
  have y1: "filter (\<lambda>file. endswith file ''.yaml'') [] = []"
    by simp
  have y2: "filter (\<lambda>file. endswith file ''.yaml'') [''tokenizer_config.json''] = []"
    by code_simp
  have j: "path_join ''empty'' ''tokenizer_config.json'' = ''empty/tokenizer_config.json''"
    "path_join ''tok2'' ''tokenizer_config.json'' = ''tok2/tokenizer_config.json''"
    "path_join ''tok'' ''tokenizer_config.json'' = ''tok/tokenizer_config.json''"
    by code_simp+
  have n1: "\<not> path_exists (fs ex_world) ''empty/tokenizer_config.json''"
    by code_simp
  have n2: "node_at (fs ex_world) ''tok2/tokenizer_config.json'' = Some (File ''none'')"
    by code_simp
  have n3: "node_at (fs ex_world) ''tok/tokenizer_config.json'' = Some (File ''tok'')"
    by code_simp
  have p2: "parse_json ex_collab ''none'' = Some (VDict [])"
    by code_simp
  have p3: "parse_json ex_collab ''tok''
              = Some (VDict [(''tokenizer_class'', VStr ''BertTokenizer'')])"
    by code_simp
  have t3: "tokenizer_from_pretrained ex_collab (VStr ''BertTokenizer'') ''tok''
              = Inr (VStr ''BertTokenizer'')"
    by code_simp
  have r1: "AutoTokenizer_from_pretrained ex_book ex_collab ex_world (VStr ''empty'')
       = (Inl (NotFound ''empty/tokenizer_config.json''), ex_world)"
    using C6_tokenizer_directory_fallback [OF dirs(1) sup(1) l1 disjI1 [OF y1], of ex_collab]
      n1 j(1) by simp
  have r2: "AutoTokenizer_from_pretrained ex_book ex_collab ex_world (VStr ''tok2'')
       = (Inl (MissingField ''tok2/tokenizer_config.json''), ex_world)"
    using C6_tokenizer_directory_fallback [OF dirs(2) sup(2) l2 disjI1 [OF y2], of ex_collab]
      n2 p2 j(2) by simp
  have r3: "AutoTokenizer_from_pretrained ex_book ex_collab ex_world (VStr ''tok'')
       = (Inr (VStr ''BertTokenizer''), ex_world)"
    using C6_tokenizer_directory_fallback [OF dirs(3) sup(3) l3 disjI1 [OF y2], of ex_collab]
      n3 p3 t3 j(3) by simp
  from dirs(1) sup(1) l1 n1 j(1) r1 r2 r3 show ?thesis by simp
qed

text \<open>
  The claim as it was stated fails for a directory that carries a supported name: the
  name is resolved first (line 517), the directory is never read, and the tokenizer is
  built from the cached default yaml although the directory holds neither a yaml nor
  \<open>tokenizer_config.json\<close>.
\<close>

theorem C6_counterexample:
  "isdir (fs ex_world_named) ''bert_base_uncased''
   \<and> listdir (fs ex_world_named) ''bert_base_uncased'' = Inr []
   \<and> \<not> path_exists (fs ex_world_named) (path_join ''bert_base_uncased'' ''tokenizer_config.json'')
   \<and> fst (AutoTokenizer_from_pretrained ex_book ex_collab ex_world_named (VStr ''bert_base_uncased''))
       = Inr (VStr ''BertTokenizer'')"
  by code_simp

subsection \<open>Normalised paths\<close>

lemma split_on_no_sep: "sep \<notin> set n \<Longrightarrow> split_on sep n = [n]"
  by (induction n) auto

lemma split_on_append:
  "split_on sep (a @ b)
     = butlast (split_on sep a) @ [last (split_on sep a) @ hd (split_on sep b)] @ tl (split_on sep b)"
proof (induction a)
  case Nil
  show ?case using split_on_nonempty [of sep b] by simp
next
  case (Cons x xs)
  show ?case
  proof (cases "x = sep")
    case True
    with Cons show ?thesis using split_on_nonempty [of sep xs] by simp
  next
    case False
    obtain w ws where w: "split_on sep xs = w # ws"
      using split_on_nonempty [of sep xs] by (cases "split_on sep xs") auto
    show ?thesis
    proof (cases ws)
      case Nil
      with False w Cons show ?thesis by simp
    next
      case (Cons w' ws')
      with False w Cons.IH show ?thesis by simp
    qed
  qed
qed

lemma norm_step_empty: "norm_step acc [] = acc"
  by (simp add: norm_step_def)

lemma norm_step_name:
  "n \<noteq> [] \<Longrightarrow> n \<noteq> ''.'' \<Longrightarrow> n \<noteq> ''..'' \<Longrightarrow> norm_step acc n = acc @ [n]"
  by (simp add: norm_step_def)

lemma split_on_single: "split_on sep xs = [w] \<Longrightarrow> w = xs"
proof (induction xs arbitrary: w)
  case Nil
  then show ?case by simp
next
  case (Cons x xs)
  then show ?case
    using split_on_nonempty [of sep xs] by (auto split: if_splits list.splits)
qed

lemma last_split_on_sep: "a \<noteq> [] \<Longrightarrow> last a = sep \<Longrightarrow> last (split_on sep a) = []"
proof (induction a)
  case Nil
  then show ?case by simp
next
  case (Cons x xs)
  show ?case
  proof (cases "xs = []")
    case True
    with Cons.prems show ?thesis by simp
  next
    case False
    with Cons have "last (split_on sep xs) = []" by simp
    then show ?thesis
      using split_on_nonempty [of sep xs] split_on_single [of sep xs] False
      by (auto split: list.splits)
  qed
qed

lemma normpath_join_name:
  assumes "CHR ''/'' \<notin> set n" and "n \<noteq> []" and "n \<noteq> ''.''" and "n \<noteq> ''..''"
  shows "normpath (path_join d n) = normpath d @ [n]"
proof -
  have sn: "split_on CHR ''/'' n = [n]"
    using assms(1) by (rule split_on_no_sep)
  have nb: "take 1 n \<noteq> ''/''"
    using assms(1,2) by (cases n) auto
  show ?thesis
  proof (cases "d = []")
    case True
    with nb sn assms show ?thesis
      by (simp add: path_join_def normpath_def norm_step_name norm_step_empty)
  next
    case False
    note d = this
    then have tk: "take 1 (d @ n) = take 1 d" "take 1 (d @ ''/'' @ n) = take 1 d"
      by (cases d; simp)+
    show ?thesis
    proof (cases "last d = CHR ''/''")
      case True
      with d have l: "last (split_on CHR ''/'' d) = []"
        by (rule last_split_on_sep)
      have "split_on CHR ''/'' d = butlast (split_on CHR ''/'' d) @ [[]]"
        using l split_on_nonempty [of "CHR ''/''" d]
        by (metis append_butlast_last_id)
      then have nd: "normpath d = foldl norm_step (if take 1 d = ''/'' then [''/''] else [])
          (butlast (split_on CHR ''/'' d))"
        unfolding normpath_def
        by (metis foldl_append foldl_Cons foldl_Nil norm_step_empty)
      have "split_on CHR ''/'' (d @ n) = butlast (split_on CHR ''/'' d) @ [n]"
        using l sn by (simp add: split_on_append)
      with True d nb tk nd assms show ?thesis
        by (simp add: path_join_def normpath_def norm_step_name)
    next
      case False
      have "split_on CHR ''/'' (''/'' @ n) = [[], n]"
        using sn by simp
      then have "split_on CHR ''/'' (d @ ''/'' @ n) = split_on CHR ''/'' d @ [n]"
        using split_on_append [of "CHR ''/''" d "''/'' @ n"] split_on_nonempty [of "CHR ''/''" d]
        by simp
      with False d nb tk assms show ?thesis
        by (simp add: path_join_def normpath_def norm_step_name)
    qed
  qed
qed

lemma endswith_path_join: "endswith (path_join a b) b"
  by (simp add: endswith_def path_join_def)

lemma path_join_nonempty: "a \<noteq> [] \<Longrightarrow> path_join a b \<noteq> []"
  by (auto simp: path_join_def)

subsection \<open>The operations on the file system\<close>

lemma map_of_fold_update:
  "map_of (fold (\<lambda>q. AList.update q n) qs f) p = (if p \<in> set qs then Some n else map_of f p)"
  by (induction qs arbitrary: f) (auto simp: update_conv')

lemma lookup_update:
  "lookup (AList.update p n f) q
     = (if q = p \<and> p \<noteq> [] \<and> p \<noteq> [''/''] then Some n else lookup f q)"
  by (auto simp: lookup_def update_conv')

lemma lookup_mkdirs:
  "lookup (fold (\<lambda>q. AList.update q Dir) (missing_dirs f p) f) q
     = (if q \<in> set (prefixes p) \<and> lookup f q = None then Some Dir else lookup f q)"
  by (auto simp: lookup_def missing_dirs_def map_of_fold_update)

lemma makedirs_ok:
  assumes "d \<noteq> []" and "\<not> path_exists (fs w) d"
    and "\<forall>q \<in> set (prefixes (normpath d)). \<not> is_regular (lookup (fs w) q)"
  shows "makedirs d w
     = (Inr (), w\<lparr>calls := calls w @ [Makedirs d],
                  fs := fold (\<lambda>q. AList.update q Dir) (missing_dirs (fs w) (normpath d)) (fs w)\<rparr>)"
  using assms by (simp add: makedirs_def Let_def)

lemma is_regular_File: "is_regular n \<Longrightarrow> \<exists>c. n = Some (File c)"
  by (cases n rule: is_regular.cases) auto

lemma not_regular_Some: "\<not> is_regular (Some y) \<Longrightarrow> y = Dir"
  by (cases y) auto

lemma ensure_dir_ok:
  assumes "d \<noteq> []"
    and "\<forall>q \<in> set (prefixes (normpath d)). \<not> is_regular (lookup (fs w) q)"
  shows "\<exists>w1. (if \<not> path_exists (fs w) d then makedirs d w else (Inr (), w)) = (Inr (), w1)
      \<and> calls w1 = calls w @ (if path_exists (fs w) d then [] else [Makedirs d])
      \<and> config_to_name w1 = config_to_name w
      \<and> isdir (fs w1) d
      \<and> (\<forall>q. q \<notin> set (prefixes (normpath d)) \<longrightarrow> lookup (fs w1) q = lookup (fs w) q)
      \<and> (\<forall>q. lookup (fs w) q \<noteq> None \<longrightarrow> lookup (fs w1) q = lookup (fs w) q)"
proof (cases "path_exists (fs w) d")
  case True
  have "normpath d \<in> set (prefixes (normpath d))" by simp
  with assms(2) have "\<not> is_regular (lookup (fs w) (normpath d))" by blast
  with True assms(1) have "isdir (fs w) d"
    using not_regular_Some by (auto simp: isdir_def path_exists_def node_at_def)
  with True show ?thesis by simp
next
  case False
  let ?f = "fold (\<lambda>q. AList.update q Dir) (missing_dirs (fs w) (normpath d)) (fs w)"
  let ?w1 = "w\<lparr>calls := calls w @ [Makedirs d], fs := ?f\<rparr>"
  from False assms have mk: "makedirs d w = (Inr (), ?w1)"
    by (simp add: makedirs_ok)
  from False assms(1) have none: "lookup (fs w) (normpath d) = None"
    by (simp add: path_exists_def node_at_def)
  have "isdir (fs ?w1) d"
    using assms(1) none by (simp add: isdir_def node_at_def lookup_mkdirs)
  with False mk show ?thesis
    by (simp add: lookup_mkdirs)
qed

lemma ensure_dir_ready:
  assumes "isdir (fs w) d \<or> fst (makedirs d w) = Inr ()"
  shows "d \<noteq> [] \<and> (\<exists>w1. (if \<not> path_exists (fs w) d then makedirs d w else (Inr (), w)) = (Inr (), w1)
      \<and> calls w1 = calls w @ (if path_exists (fs w) d then [] else [Makedirs d])
      \<and> config_to_name w1 = config_to_name w
      \<and> isdir (fs w1) d
      \<and> (\<forall>q. q \<notin> set (prefixes (normpath d)) \<longrightarrow> lookup (fs w1) q = lookup (fs w) q)
      \<and> (\<forall>q. lookup (fs w) q \<noteq> None \<longrightarrow> lookup (fs w1) q = lookup (fs w) q))"
proof (cases "path_exists (fs w) d")
  case True
  then have "fst (makedirs d w) \<noteq> Inr ()"
    by (simp add: makedirs_def Let_def)
  with assms have dir: "isdir (fs w) d"
    by blast
  then have "d \<noteq> []"
    by (auto simp: isdir_def node_at_def split: if_splits)
  with True dir show ?thesis by simp
next
  case False
  then have "\<not> isdir (fs w) d"
    using isdir_exists by blast
  with assms have ok: "fst (makedirs d w) = Inr ()"
    by blast
  then have d: "d \<noteq> []"
    and free: "\<forall>q \<in> set (prefixes (normpath d)). \<not> is_regular (lookup (fs w) q)"
    by (auto simp: makedirs_def Let_def split: if_splits)
  from ensure_dir_ok [OF d free] d show ?thesis
    by blast
qed

lemma makedirs_ready:
  assumes "d \<noteq> []"
    and "\<forall>q \<in> set (prefixes (normpath d)). \<not> is_regular (lookup (fs w) q)"
  shows "isdir (fs w) d \<or> fst (makedirs d w) = Inr ()"
  using ensure_dir_ok [OF assms] by (auto split: if_splits)

lemma shutil_copy_ok:
  assumes "node_at (fs w) src = Some (File c)"
    and "dst \<noteq> []" and "normpath dst = p @ [n]" and "n \<noteq> ''/''"
    and "lookup (fs w) (normpath dst) = None"
    and "lookup (fs w) p = Some Dir"
  shows "shutil_copy src dst w
     = (Inr (), w\<lparr>calls := calls w @ [Copy src dst],
                  fs := AList.update (normpath dst) (File c) (fs w)\<rparr>)"
  using assms by (simp add: shutil_copy_def isdir_def node_at_def Let_def)

lemma long_name_proper:
  "5 \<le> length n \<Longrightarrow> n \<noteq> [] \<and> n \<noteq> ''.'' \<and> n \<noteq> ''..'' \<and> n \<noteq> ''/''"
  by auto

lemma yaml_name_proper:
  "s @ ''.yaml'' \<noteq> []" "s @ ''.yaml'' \<noteq> ''.''" "s @ ''.yaml'' \<noteq> ''..''" "s @ ''.yaml'' \<noteq> ''/''"
  using long_name_proper [of "s @ ''.yaml''"] by simp_all

lemma cached_yaml_path:
  assumes "CHR ''/'' \<notin> set s"
  shows "normpath (cached_yaml bk s) = normpath (cache_dir bk s) @ [s @ ''.yaml'']"
  unfolding cached_yaml_def
  using assms by (intro normpath_join_name) (simp_all add: yaml_name_proper)

lemma not_prefix_snoc: "p @ [n] \<notin> set (prefixes p)"
  by (auto simp: in_set_prefixes dest: prefix_length_le)

lemma isfile_node: "isfile f s \<Longrightarrow> \<exists>c. node_at f s = Some (File c)"
  unfolding isfile_def by (rule is_regular_File)

lemma node_at_Some_nonempty: "node_at f s = Some n \<Longrightarrow> s \<noteq> [] \<and> lookup f (normpath s) = Some n"
  by (auto simp: node_at_def split: if_splits)

lemma fetch_yaml_ok:
  assumes slash: "CHR ''/'' \<notin> set s"
    and ready: "isdir (fs w) (cache_dir bk s) \<or> fst (makedirs (cache_dir bk s) w) = Inr ()"
    and tmpl: "\<not> path_exists (fs w) (cached_yaml bk s) \<longrightarrow> isfile (fs w) (default_yaml bk s)"
  shows "\<exists>w'. fetch_yaml bk s w = (Inr (cached_yaml bk s), w')
      \<and> isdir (fs w') (cache_dir bk s)
      \<and> calls w' = calls w
          @ (if path_exists (fs w) (cache_dir bk s) then [] else [Makedirs (cache_dir bk s)])
          @ (if path_exists (fs w) (cached_yaml bk s) then []
             else [Copy (default_yaml bk s) (cached_yaml bk s)])
      \<and> config_to_name w' = config_to_name w
      \<and> node_at (fs w') (cached_yaml bk s)
          = (if path_exists (fs w) (cached_yaml bk s) then node_at (fs w) (cached_yaml bk s)
             else node_at (fs w) (default_yaml bk s))"
proof -
  let ?D = "cache_dir bk s" and ?C = "cached_yaml bk s" and ?T = "default_yaml bk s"
  from ensure_dir_ready [OF ready] have D: "?D \<noteq> []"
    by blast
  then have C: "?C \<noteq> []"
    unfolding cached_yaml_def by (rule path_join_nonempty)
  have np: "normpath ?C = normpath ?D @ [s @ ''.yaml'']"
    using slash by (rule cached_yaml_path)
  from ensure_dir_ready [OF ready] obtain w1 where
    mk: "(if \<not> path_exists (fs w) ?D then makedirs ?D w else (Inr (), w)) = (Inr (), w1)"
    and calls1: "calls w1 = calls w @ (if path_exists (fs w) ?D then [] else [Makedirs ?D])"
    and tab1: "config_to_name w1 = config_to_name w"
    and dir1: "isdir (fs w1) ?D"
    and frame: "\<forall>q. q \<notin> set (prefixes (normpath ?D)) \<longrightarrow> lookup (fs w1) q = lookup (fs w) q"
    and keep: "\<forall>q. lookup (fs w) q \<noteq> None \<longrightarrow> lookup (fs w1) q = lookup (fs w) q"
    by blast
  have same: "lookup (fs w1) (normpath ?C) = lookup (fs w) (normpath ?C)"
    using frame np not_prefix_snoc by simp
  then have nodeC: "node_at (fs w1) ?C = node_at (fs w) ?C"
    by (simp add: node_at_def)
  then have exC: "path_exists (fs w1) ?C = path_exists (fs w) ?C"
    by (simp add: path_exists_def)
  show ?thesis
  proof (cases "path_exists (fs w) ?C")
    case True
    with mk exC have "fetch_yaml bk s w = (Inr ?C, w1)"
      by (simp add: fetch_yaml_def Let_def)
    with True calls1 tab1 dir1 nodeC show ?thesis by simp
  next
    case False
    with tmpl obtain c where src: "node_at (fs w) ?T = Some (File c)"
      using isfile_node by blast
    then have "?T \<noteq> []" and "lookup (fs w) (normpath ?T) = Some (File c)"
      using node_at_Some_nonempty by blast+
    with keep have src1: "node_at (fs w1) ?T = Some (File c)"
      by (simp add: node_at_def)
    then have exT: "path_exists (fs w1) ?T"
      by (simp add: path_exists_def)
    from False exC C have none: "lookup (fs w1) (normpath ?C) = None"
      by (simp add: path_exists_def node_at_def)
    from dir1 D have parent: "lookup (fs w1) (normpath ?D) = Some Dir"
      by (simp add: isdir_def node_at_def)
    let ?w2 = "w1\<lparr>calls := calls w1 @ [Copy ?T ?C],
                    fs := AList.update (normpath ?C) (File c) (fs w1)\<rparr>"
    have cp: "shutil_copy ?T ?C w1 = (Inr (), ?w2)"
      using src1 C np yaml_name_proper(4) none parent by (rule shutil_copy_ok)
    have res: "fetch_yaml bk s w = (Inr ?C, ?w2)"
      using mk False exC exT cp by (simp add: fetch_yaml_def Let_def)
    have "isdir (fs ?w2) ?D"
      using D parent np by (simp add: isdir_def node_at_def lookup_update)
    moreover have "node_at (fs ?w2) ?C = Some (File c)"
      using C np yaml_name_proper(4) by (simp add: node_at_def lookup_update)
    ultimately show ?thesis
      using res False calls1 tab1 src by simp
  qed
qed

lemma lookup_special: "lookup f [] = Some Dir" "lookup f [''/''] = Some Dir"
  by (simp_all add: lookup_def)

lemma makedirs_exists:
  assumes "makedirs d w = (Inr u, w1)"
  shows "path_exists (fs w1) d"
  using assms
  by (auto simp: makedirs_def Let_def path_exists_def node_at_def lookup_mkdirs split: if_splits)

lemma shutil_copy_exists:
  assumes "shutil_copy src dst w = (Inr u, w2)" and "\<not> path_exists (fs w) dst"
  shows "path_exists (fs w2) dst \<and> (\<forall>q. lookup (fs w) q \<noteq> None \<longrightarrow> lookup (fs w2) q \<noteq> None)"
proof -
  from assms(2) have nd: "\<not> isdir (fs w) dst"
    using isdir_exists by blast
  from assms(1) nd show ?thesis
    by (auto simp: shutil_copy_def Let_def path_exists_def node_at_def lookup_update
        lookup_special split: option.splits node.splits if_splits)
qed

lemma fetch_yaml_result:
  assumes "fetch_yaml bk s w = (Inr p, w1)"
  shows "p = cached_yaml bk s \<and> path_exists (fs w1) (cache_dir bk s)
     \<and> path_exists (fs w1) (cached_yaml bk s)"
proof -
  let ?D = "cache_dir bk s" and ?C = "cached_yaml bk s" and ?T = "default_yaml bk s"
  obtain r wa where first:
    "(if \<not> path_exists (fs w) ?D then makedirs ?D w else (Inr (), w)) = (r, wa)"
    by (cases "if \<not> path_exists (fs w) ?D then makedirs ?D w else (Inr (), w)")
  with assms obtain u where r: "r = Inr u"
    by (cases r) (auto simp: fetch_yaml_def Let_def)
  have exD: "path_exists (fs wa) ?D"
    using first r makedirs_exists by (auto split: if_splits)
  show ?thesis
  proof (cases "path_exists (fs wa) ?C")
    case True
    with assms first r have "p = ?C" and "w1 = wa"
      by (auto simp: fetch_yaml_def Let_def)
    with True exD show ?thesis by simp
  next
    case False
    with assms first r obtain u' where cp: "shutil_copy ?T ?C wa = (Inr u', w1)" and p: "p = ?C"
      by (auto simp: fetch_yaml_def Let_def split: if_splits prod.splits sum.splits)
    from shutil_copy_exists [OF cp False] exD have
      "path_exists (fs w1) ?C" and "path_exists (fs w1) ?D"
      by (auto simp: path_exists_def node_at_def split: if_splits)
    with p show ?thesis by simp
  qed
qed

lemma fetch_yaml_cached:
  assumes "path_exists (fs w) (cache_dir bk s)" and "path_exists (fs w) (cached_yaml bk s)"
  shows "fetch_yaml bk s w = (Inr (cached_yaml bk s), w)"
  using assms by (simp add: fetch_yaml_def Let_def)

lemma AutoConfig_build_frame:
  "fs (snd (AutoConfig_build cb w l)) = fs w \<and> calls (snd (AutoConfig_build cb w l)) = calls w"
  by (simp add: AutoConfig_build_def split: sum.splits option.splits)

subsection \<open>Resolution of a supported name\<close>

lemma is_supported_iff:
  "is_supported sl s
     \<longleftrightarrow> (\<exists>names. map_of sl (takeWhile (\<lambda>c. c \<noteq> CHR ''_'') s) = Some names \<and> s \<in> set names)"
  by (auto simp: is_supported_def family_takeWhile split: option.splits)

lemma from_pretrained_supported:
  assumes "\<not> path_exists (fs w) s" and "is_supported (model_support_list bk) s"
  shows "AutoConfig_from_pretrained bk cb w (VStr s)
       = (case fetch_yaml bk s w of
            (Inl e, w1) \<Rightarrow> (Inl e, w1)
          | (Inr yaml_file, w1) \<Rightarrow>
              AutoConfig_build cb w1 (MindFormerConfig (parse_yaml cb) (fs w1) yaml_file))"
    and "AutoModel_from_pretrained bk cb w (VStr s)
       = (case fetch_yaml bk s w of
            (Inl e, w1) \<Rightarrow> (Inl e, w1)
          | (Inr yaml_file, w1) \<Rightarrow>
              (AutoModel_build cb (MindFormerConfig (parse_yaml cb) (fs w1) yaml_file) s, w1))"
proof -
  from assms(1) have nd: "\<not> isdir (fs w) s"
    using isdir_exists by blast
  show "AutoConfig_from_pretrained bk cb w (VStr s)
       = (case fetch_yaml bk s w of
            (Inl e, w1) \<Rightarrow> (Inl e, w1)
          | (Inr yaml_file, w1) \<Rightarrow>
              AutoConfig_build cb w1 (MindFormerConfig (parse_yaml cb) (fs w1) yaml_file))"
    using assms by (simp add: AutoConfig_from_pretrained_def AutoConfig_support_list_def)
  show "AutoModel_from_pretrained bk cb w (VStr s)
       = (case fetch_yaml bk s w of
            (Inl e, w1) \<Rightarrow> (Inl e, w1)
          | (Inr yaml_file, w1) \<Rightarrow>
              (AutoModel_build cb (MindFormerConfig (parse_yaml cb) (fs w1) yaml_file) s, w1))"
    using assms nd by (simp add: AutoModel_from_pretrained_def AutoModel_support_list_def)
qed

text \<open>
  C1, as the code has it: let the identifier be bare (it names no existing path and
  holds no separator) and be listed in the support list under its family (the substring
  before the first \<open>_\<close>). Let the cache directory be an existing directory or one that
  \<^verbatim>\<open>os.makedirs\<close> can create, and let the bundled default yaml be a regular file when the
  cached yaml does not exist. Then
  \<^verbatim>\<open>AutoConfig.from_pretrained\<close> and \<^verbatim>\<open>AutoModel.from_pretrained\<close> resolve the identifier
  to the cached path, which is cache-root/family/identifier.yaml: the directory
  cache-root/family exists afterwards and is created only when it did not exist, the
  default yaml is copied to the cached path only when nothing was there, and the config
  is loaded from the cached path.
\<close>

theorem C1_supported_name_resolved:
  assumes bare: "\<not> path_exists (fs w) s" and slash: "CHR ''/'' \<notin> set s"
    and key: "map_of (model_support_list bk) (takeWhile (\<lambda>c. c \<noteq> CHR ''_'') s) = Some names"
    and listed: "s \<in> set names"
    and ready: "isdir (fs w) (cache_dir bk s) \<or> fst (makedirs (cache_dir bk s) w) = Inr ()"
    and tmpl: "\<not> path_exists (fs w) (cached_yaml bk s) \<longrightarrow> isfile (fs w) (default_yaml bk s)"
  shows "cache_dir bk s
         = path_join (checkpoint_download_folder bk) (takeWhile (\<lambda>c. c \<noteq> CHR ''_'') s)
     \<and> cached_yaml bk s = path_join (cache_dir bk s) (s @ ''.yaml'')
     \<and> default_yaml bk s
         = path_join (path_join (path_join (path_join (project_path bk) ''configs'')
             (takeWhile (\<lambda>c. c \<noteq> CHR ''_'') s)) ''model_config'') (s @ ''.yaml'')
     \<and> endswith (cached_yaml bk s) (s @ ''.yaml'')
     \<and> (\<exists>w'. fetch_yaml bk s w = (Inr (cached_yaml bk s), w')
          \<and> AutoConfig_from_pretrained bk cb w (VStr s)
              = AutoConfig_build cb w'
                  (MindFormerConfig (parse_yaml cb) (fs w') (cached_yaml bk s))
          \<and> AutoModel_from_pretrained bk cb w (VStr s)
              = (AutoModel_build cb
                   (MindFormerConfig (parse_yaml cb) (fs w') (cached_yaml bk s)) s, w')
          \<and> isdir (fs w') (cache_dir bk s)
          \<and> calls w' = calls w
              @ (if path_exists (fs w) (cache_dir bk s) then []
                 else [Makedirs (cache_dir bk s)])
              @ (if path_exists (fs w) (cached_yaml bk s) then []
                 else [Copy (default_yaml bk s) (cached_yaml bk s)])
          \<and> node_at (fs w') (cached_yaml bk s)
              = (if path_exists (fs w) (cached_yaml bk s) then node_at (fs w) (cached_yaml bk s)
                 else node_at (fs w) (default_yaml bk s)))"
proof -
  from key listed have sup: "is_supported (model_support_list bk) s"
    using is_supported_iff by blast
  from fetch_yaml_ok [OF slash ready tmpl] obtain w' where
    res: "fetch_yaml bk s w = (Inr (cached_yaml bk s), w')"
    and rest: "isdir (fs w') (cache_dir bk s)"
      "calls w' = calls w
          @ (if path_exists (fs w) (cache_dir bk s) then [] else [Makedirs (cache_dir bk s)])
          @ (if path_exists (fs w) (cached_yaml bk s) then []
             else [Copy (default_yaml bk s) (cached_yaml bk s)])"
      "node_at (fs w') (cached_yaml bk s)
          = (if path_exists (fs w) (cached_yaml bk s) then node_at (fs w) (cached_yaml bk s)
             else node_at (fs w) (default_yaml bk s))"
    by blast
  have "AutoConfig_from_pretrained bk cb w (VStr s)
      = AutoConfig_build cb w' (MindFormerConfig (parse_yaml cb) (fs w') (cached_yaml bk s))"
    using from_pretrained_supported(1) [OF bare sup] res by simp
  moreover have "AutoModel_from_pretrained bk cb w (VStr s)
      = (AutoModel_build cb (MindFormerConfig (parse_yaml cb) (fs w') (cached_yaml bk s)) s, w')"
    using from_pretrained_supported(2) [OF bare sup] res by simp
  moreover have "endswith (cached_yaml bk s) (s @ ''.yaml'')"
    unfolding cached_yaml_def by (rule endswith_path_join)
  moreover have "cache_dir bk s
         = path_join (checkpoint_download_folder bk) (takeWhile (\<lambda>c. c \<noteq> CHR ''_'') s)"
    by (simp add: cache_dir_def family_takeWhile)
  moreover have "cached_yaml bk s = path_join (cache_dir bk s) (s @ ''.yaml'')"
    by (simp add: cached_yaml_def)
  moreover have "default_yaml bk s
         = path_join (path_join (path_join (path_join (project_path bk) ''configs'')
             (takeWhile (\<lambda>c. c \<noteq> CHR ''_'') s)) ''model_config'') (s @ ''.yaml'')"
    by (simp add: default_yaml_def family_takeWhile)
  ultimately show ?thesis
    using res rest by blast
qed

theorem C1_supported_name_resolved_witness:
  "\<not> path_exists (fs ex_world) ''bert_base_uncased''
   \<and> \<not> path_exists (fs ex_world) ''./checkpoint_download/bert''
   \<and> isfile (fs ex_world) ''/proj/configs/bert/model_config/bert_base_uncased.yaml''
   \<and> cached_yaml ex_book ''bert_base_uncased''
       = ''./checkpoint_download/bert/bert_base_uncased.yaml''
   \<and> isdir (fs (snd (AutoModel_from_pretrained ex_book ex_collab ex_world
                      (VStr ''bert_base_uncased'')))) ''./checkpoint_download/bert''
   \<and> node_at (fs (snd (AutoModel_from_pretrained ex_book ex_collab ex_world
                        (VStr ''bert_base_uncased''))))
        ''./checkpoint_download/bert/bert_base_uncased.yaml'' = Some (File ''bert'')
   \<and> calls (snd (AutoModel_from_pretrained ex_book ex_collab ex_world
                    (VStr ''bert_base_uncased'')))
       = [Makedirs ''./checkpoint_download/bert'',
          Copy ''/proj/configs/bert/model_config/bert_base_uncased.yaml''
            ''./checkpoint_download/bert/bert_base_uncased.yaml'']"
proof -
  let ?s = "''bert_base_uncased''"
  have bare: "\<not> path_exists (fs ex_world) ?s"
    by code_simp
  have slash: "CHR ''/'' \<notin> set ?s"
    by simp
  have key: "map_of (model_support_list ex_book) (takeWhile (\<lambda>c. c \<noteq> CHR ''_'') ?s)
               = Some [''bert_base_uncased'']"
    by (simp add: ex_book_def)
  have listed: "?s \<in> set [''bert_base_uncased'']"
    by simp
  have ready: "isdir (fs ex_world) (cache_dir ex_book ?s)
                 \<or> fst (makedirs (cache_dir ex_book ?s) ex_world) = Inr ()"
    by code_simp
  have d: "cache_dir ex_book ?s = ''./checkpoint_download/bert''"
    by code_simp
  have c: "cached_yaml ex_book ?s = ''./checkpoint_download/bert/bert_base_uncased.yaml''"
    by code_simp
  have t: "default_yaml ex_book ?s = ''/proj/configs/bert/model_config/bert_base_uncased.yaml''"
    by code_simp
  have nd: "\<not> path_exists (fs ex_world) ''./checkpoint_download/bert''"
    by code_simp
  have nc: "\<not> path_exists (fs ex_world) ''./checkpoint_download/bert/bert_base_uncased.yaml''"
    by code_simp
  have tf: "isfile (fs ex_world) ''/proj/configs/bert/model_config/bert_base_uncased.yaml''"
    by code_simp
  have tn: "node_at (fs ex_world) ''/proj/configs/bert/model_config/bert_base_uncased.yaml''
              = Some (File ''bert'')"
    by code_simp
  have tmpl: "\<not> path_exists (fs ex_world) (cached_yaml ex_book ?s)
                \<longrightarrow> isfile (fs ex_world) (default_yaml ex_book ?s)"
    using tf t by simp
  have e: "calls ex_world = []"
    by (simp add: ex_world_def)
  from C1_supported_name_resolved [OF bare slash key listed ready tmpl, of ex_collab]
  obtain w' where
    am: "AutoModel_from_pretrained ex_book ex_collab ex_world (VStr ?s)
           = (AutoModel_build ex_collab
                (MindFormerConfig (parse_yaml ex_collab) (fs w') (cached_yaml ex_book ?s)) ?s, w')"
    and dir: "isdir (fs w') (cache_dir ex_book ?s)"
    and cl: "calls w' = calls ex_world
              @ (if path_exists (fs ex_world) (cache_dir ex_book ?s) then []
                 else [Makedirs (cache_dir ex_book ?s)])
              @ (if path_exists (fs ex_world) (cached_yaml ex_book ?s) then []
                 else [Copy (default_yaml ex_book ?s) (cached_yaml ex_book ?s)])"
    and nodes: "node_at (fs w') (cached_yaml ex_book ?s)
              = (if path_exists (fs ex_world) (cached_yaml ex_book ?s)
                 then node_at (fs ex_world) (cached_yaml ex_book ?s)
                 else node_at (fs ex_world) (default_yaml ex_book ?s))"
    by blast
  from am have w': "snd (AutoModel_from_pretrained ex_book ex_collab ex_world (VStr ?s)) = w'"
    by simp
  from dir cl nodes show ?thesis
    unfolding w' d c t using bare nd nc tf tn e by simp
qed

text \<open>
  The claim as it was stated fails where a precondition it does not name is missing.
  The identifier \<open>mae_vit_base_p16\<close> is bare and listed under its family, but the project
  bundles no default yaml for it: both calls raise the missing-default error (lines
  104-108 and 293-297). The identifier \<open>bert_base_uncased\<close> is bare and listed and its
  default yaml is bundled, but a regular file stands where the cache root belongs:
  \<^verbatim>\<open>os.makedirs\<close> fails, both calls raise its error, and no cache directory exists
  afterwards.
\<close>

theorem C1_counterexample:
  "\<not> path_exists (fs ex_world) ''mae_vit_base_p16''
   \<and> family ''mae_vit_base_p16'' = ''mae''
   \<and> map_of (model_support_list ex_book) ''mae'' = Some [''mae_vit_base_p16'']
   \<and> fst (AutoConfig_from_pretrained ex_book ex_collab ex_world (VStr ''mae_vit_base_p16''))
       = Inl (MissingDefault ''/proj/configs/mae/model_config/mae_vit_base_p16.yaml'')
   \<and> fst (AutoModel_from_pretrained ex_book ex_collab ex_world (VStr ''mae_vit_base_p16''))
       = Inl (MissingDefault ''/proj/configs/mae/model_config/mae_vit_base_p16.yaml'')
   \<and> \<not> path_exists (fs ex_world_blocked) ''bert_base_uncased''
   \<and> family ''bert_base_uncased'' = ''bert''
   \<and> map_of (model_support_list ex_book) ''bert'' = Some [''bert_base_uncased'']
   \<and> isfile (fs ex_world_blocked) (default_yaml ex_book ''bert_base_uncased'')
   \<and> fst (AutoConfig_from_pretrained ex_book ex_collab ex_world_blocked
            (VStr ''bert_base_uncased'')) = Inl OSError
   \<and> fst (AutoModel_from_pretrained ex_book ex_collab ex_world_blocked
            (VStr ''bert_base_uncased'')) = Inl OSError
   \<and> \<not> isdir (fs (snd (AutoModel_from_pretrained ex_book ex_collab ex_world_blocked
                        (VStr ''bert_base_uncased'')))) (cache_dir ex_book ''bert_base_uncased'')"
  by code_simp

lemma fetch_yaml_missing_default:
  assumes root: "checkpoint_download_folder bk \<noteq> []"
    and slash: "CHR ''/'' \<notin> set s"
    and free: "\<forall>q \<in> set (prefixes (normpath (cache_dir bk s))). \<not> is_regular (lookup (fs w) q)"
    and nodir: "\<not> path_exists (fs w) (cache_dir bk s)"
    and nocache: "\<not> path_exists (fs w) (cached_yaml bk s)"
    and notmpl: "\<not> path_exists (fs w) (default_yaml bk s)"
    and apart: "normpath (default_yaml bk s) \<notin> set (prefixes (normpath (cache_dir bk s)))"
  shows "\<exists>w'. fetch_yaml bk s w = (Inl (MissingDefault (default_yaml bk s)), w')
      \<and> isdir (fs w') (cache_dir bk s)
      \<and> calls w' = calls w @ [Makedirs (cache_dir bk s)]"
proof -
  let ?D = "cache_dir bk s" and ?C = "cached_yaml bk s" and ?T = "default_yaml bk s"
  have D: "?D \<noteq> []"
    unfolding cache_dir_def using root by (rule path_join_nonempty)
  have np: "normpath ?C = normpath ?D @ [s @ ''.yaml'']"
    using slash by (rule cached_yaml_path)
  from ensure_dir_ok [OF D free] obtain w1 where
    mk: "(if \<not> path_exists (fs w) ?D then makedirs ?D w else (Inr (), w)) = (Inr (), w1)"
    and calls1: "calls w1 = calls w @ (if path_exists (fs w) ?D then [] else [Makedirs ?D])"
    and dir1: "isdir (fs w1) ?D"
    and frame: "\<forall>q. q \<notin> set (prefixes (normpath ?D)) \<longrightarrow> lookup (fs w1) q = lookup (fs w) q"
    by blast
  have "lookup (fs w1) (normpath ?C) = lookup (fs w) (normpath ?C)"
    using frame np not_prefix_snoc by simp
  with nocache have c: "\<not> path_exists (fs w1) ?C"
    by (auto simp: path_exists_def node_at_def split: if_splits)
  have "lookup (fs w1) (normpath ?T) = lookup (fs w) (normpath ?T)"
    using frame apart by simp
  with notmpl have t: "\<not> path_exists (fs w1) ?T"
    by (auto simp: path_exists_def node_at_def split: if_splits)
  have "fetch_yaml bk s w = (Inl (MissingDefault ?T), w1)"
    using mk c t by (simp add: fetch_yaml_def Let_def)
  with dir1 calls1 nodir show ?thesis by simp
qed

text \<open>
  C8: resolution is not atomic. For a supported identifier whose cache directory does
  not exist and whose default yaml is missing, both \<^verbatim>\<open>from_pretrained\<close> raise the
  missing-default error, and the cache directory that was created before the failure is
  still there in the state the failure leaves.
\<close>

theorem C8_cache_directory_survives_failure:
  assumes bare: "\<not> path_exists (fs w) s" and slash: "CHR ''/'' \<notin> set s"
    and key: "map_of (model_support_list bk) (takeWhile (\<lambda>c. c \<noteq> CHR ''_'') s) = Some names"
    and listed: "s \<in> set names"
    and root: "checkpoint_download_folder bk \<noteq> []"
    and free: "\<forall>q \<in> set (prefixes (normpath (cache_dir bk s))). \<not> is_regular (lookup (fs w) q)"
    and nodir: "\<not> path_exists (fs w) (cache_dir bk s)"
    and nocache: "\<not> path_exists (fs w) (cached_yaml bk s)"
    and notmpl: "\<not> path_exists (fs w) (default_yaml bk s)"
    and apart: "normpath (default_yaml bk s) \<notin> set (prefixes (normpath (cache_dir bk s)))"
  shows "\<exists>w'. AutoConfig_from_pretrained bk cb w (VStr s)
              = (Inl (MissingDefault (default_yaml bk s)), w')
     \<and> AutoModel_from_pretrained bk cb w (VStr s)
              = (Inl (MissingDefault (default_yaml bk s)), w')
     \<and> isdir (fs w') (cache_dir bk s)
     \<and> calls w' = calls w @ [Makedirs (cache_dir bk s)]"
proof -
  from key listed have sup: "is_supported (model_support_list bk) s"
    using is_supported_iff by blast
  from fetch_yaml_missing_default [OF root slash free nodir nocache notmpl apart] obtain w' where
    res: "fetch_yaml bk s w = (Inl (MissingDefault (default_yaml bk s)), w')"
    and rest: "isdir (fs w') (cache_dir bk s)" "calls w' = calls w @ [Makedirs (cache_dir bk s)]"
    by blast
  have "AutoConfig_from_pretrained bk cb w (VStr s)
      = (Inl (MissingDefault (default_yaml bk s)), w')"
    using from_pretrained_supported(1) [OF bare sup] res by simp
  moreover have "AutoModel_from_pretrained bk cb w (VStr s)
      = (Inl (MissingDefault (default_yaml bk s)), w')"
    using from_pretrained_supported(2) [OF bare sup, of cb] res by simp
  ultimately show ?thesis
    using rest by blast
qed

theorem C8_cache_directory_survives_failure_witness:
  "\<not> path_exists (fs ex_world) ''mae_vit_base_p16''
   \<and> \<not> path_exists (fs ex_world) ''./checkpoint_download/mae''
   \<and> \<not> path_exists (fs ex_world) ''/proj/configs/mae/model_config/mae_vit_base_p16.yaml''
   \<and> fst (AutoConfig_from_pretrained ex_book ex_collab ex_world (VStr ''mae_vit_base_p16''))
       = Inl (MissingDefault ''/proj/configs/mae/model_config/mae_vit_base_p16.yaml'')
   \<and> isdir (fs (snd (AutoConfig_from_pretrained ex_book ex_collab ex_world
                      (VStr ''mae_vit_base_p16'')))) ''./checkpoint_download/mae''
   \<and> fst (AutoModel_from_pretrained ex_book ex_collab ex_world (VStr ''mae_vit_base_p16''))
       = Inl (MissingDefault ''/proj/configs/mae/model_config/mae_vit_base_p16.yaml'')
   \<and> isdir (fs (snd (AutoModel_from_pretrained ex_book ex_collab ex_world
                      (VStr ''mae_vit_base_p16'')))) ''./checkpoint_download/mae''"
proof -
  let ?s = "''mae_vit_base_p16''"
  have bare: "\<not> path_exists (fs ex_world) ?s"
    by code_simp
  have slash: "CHR ''/'' \<notin> set ?s"
    by simp
  have key: "map_of (model_support_list ex_book) (takeWhile (\<lambda>c. c \<noteq> CHR ''_'') ?s)
               = Some [''mae_vit_base_p16'']"
    by (simp add: ex_book_def)
  have listed: "?s \<in> set [''mae_vit_base_p16'']"
    by simp
  have root: "checkpoint_download_folder ex_book \<noteq> []"
    by (simp add: ex_book_def)
  have free: "\<forall>q \<in> set (prefixes (normpath (cache_dir ex_book ?s))).
                \<not> is_regular (lookup (fs ex_world) q)"
    by code_simp
  have d: "cache_dir ex_book ?s = ''./checkpoint_download/mae''"
    by code_simp
  have t: "default_yaml ex_book ?s = ''/proj/configs/mae/model_config/mae_vit_base_p16.yaml''"
    by code_simp
  have nd: "\<not> path_exists (fs ex_world) (cache_dir ex_book ?s)"
    by code_simp
  have nc: "\<not> path_exists (fs ex_world) (cached_yaml ex_book ?s)"
    by code_simp
  have nt: "\<not> path_exists (fs ex_world) (default_yaml ex_book ?s)"
    by code_simp
  have apart: "normpath (default_yaml ex_book ?s)
                 \<notin> set (prefixes (normpath (cache_dir ex_book ?s)))"
    by code_simp
  from C8_cache_directory_survives_failure
         [OF bare slash key listed root free nd nc nt apart, of ex_collab]
  obtain w' where
    ac: "AutoConfig_from_pretrained ex_book ex_collab ex_world (VStr ?s)
           = (Inl (MissingDefault (default_yaml ex_book ?s)), w')"
    and am: "AutoModel_from_pretrained ex_book ex_collab ex_world (VStr ?s)
           = (Inl (MissingDefault (default_yaml ex_book ?s)), w')"
    and dir: "isdir (fs w') (cache_dir ex_book ?s)"
    by blast
  from dir show ?thesis
    unfolding ac am using bare nd nt d t by simp
qed

text \<open>
  C4: resolution is idempotent. Let a call of \<^verbatim>\<open>from_pretrained\<close> on a supported
  identifier have resolved it to the path \<open>p\<close>, and let the identifier still name no
  existing path in the state \<open>w1\<close> the call leaves. Then a second call in \<open>w1\<close> resolves
  it to the same \<open>p\<close> and loads the config from there; it changes neither the file system
  nor the list of calls made on it, so nothing is copied again.
\<close>

theorem C4_resolution_idempotent:
  assumes bare: "\<not> path_exists (fs w) s"
    and key: "map_of (model_support_list bk) (takeWhile (\<lambda>c. c \<noteq> CHR ''_'') s) = Some names"
    and listed: "s \<in> set names"
    and first: "fetch_yaml bk s w = (Inr p, wa)"
    and w1: "w1 = snd (AutoConfig_from_pretrained bk cb w (VStr s))"
    and w1': "w1' = snd (AutoModel_from_pretrained bk cb w (VStr s))"
    and still: "\<not> path_exists (fs w1) s"
  shows "p = cached_yaml bk s
     \<and> fetch_yaml bk s w1 = (Inr p, w1)
     \<and> AutoConfig_from_pretrained bk cb w1 (VStr s)
         = AutoConfig_build cb w1 (MindFormerConfig (parse_yaml cb) (fs w1) p)
     \<and> fs (snd (AutoConfig_from_pretrained bk cb w1 (VStr s))) = fs w1
     \<and> calls (snd (AutoConfig_from_pretrained bk cb w1 (VStr s))) = calls w1
     \<and> fetch_yaml bk s w1' = (Inr p, w1')
     \<and> AutoModel_from_pretrained bk cb w1' (VStr s)
         = (AutoModel_build cb (MindFormerConfig (parse_yaml cb) (fs w1') p) s, w1')"
proof -
  from key listed have sup: "is_supported (model_support_list bk) s"
    using is_supported_iff by blast
  from fetch_yaml_result [OF first] have p: "p = cached_yaml bk s"
    and exD: "path_exists (fs wa) (cache_dir bk s)"
    and exC: "path_exists (fs wa) (cached_yaml bk s)"
    by simp_all
  have "AutoConfig_from_pretrained bk cb w (VStr s)
      = AutoConfig_build cb wa (MindFormerConfig (parse_yaml cb) (fs wa) p)"
    using from_pretrained_supported(1) [OF bare sup] first by simp
  with w1 have fs1: "fs w1 = fs wa"
    by (simp add: AutoConfig_build_frame)
  have "AutoModel_from_pretrained bk cb w (VStr s)
      = (AutoModel_build cb (MindFormerConfig (parse_yaml cb) (fs wa) p) s, wa)"
    using from_pretrained_supported(2) [OF bare sup] first by simp
  with w1' have eq': "w1' = wa" by simp
  have again: "fetch_yaml bk s w1 = (Inr p, w1)"
    using fetch_yaml_cached [of w1 bk s] exD exC fs1 p by simp
  have again': "fetch_yaml bk s w1' = (Inr p, w1')"
    using fetch_yaml_cached [of w1' bk s] exD exC eq' p by simp
  have ac: "AutoConfig_from_pretrained bk cb w1 (VStr s)
         = AutoConfig_build cb w1 (MindFormerConfig (parse_yaml cb) (fs w1) p)"
    using from_pretrained_supported(1) [OF still sup] again by simp
  from still fs1 eq' have still': "\<not> path_exists (fs w1') s" by simp
  have am: "AutoModel_from_pretrained bk cb w1' (VStr s)
         = (AutoModel_build cb (MindFormerConfig (parse_yaml cb) (fs w1') p) s, w1')"
    using from_pretrained_supported(2) [OF still' sup] again' by simp
  from p again ac again' am show ?thesis
    by (simp add: AutoConfig_build_frame)
qed

theorem C4_resolution_idempotent_witness:
  "\<not> path_exists (fs ex_world) ''bert_base_uncased''
   \<and> fst (fetch_yaml ex_book ''bert_base_uncased'' ex_world)
       = Inr ''./checkpoint_download/bert/bert_base_uncased.yaml''
   \<and> fst (fetch_yaml ex_book ''bert_base_uncased''
            (snd (AutoConfig_from_pretrained ex_book ex_collab ex_world
                    (VStr ''bert_base_uncased''))))
       = Inr ''./checkpoint_download/bert/bert_base_uncased.yaml''
   \<and> calls (snd (AutoConfig_from_pretrained ex_book ex_collab ex_world
                    (VStr ''bert_base_uncased'')))
       = [Makedirs ''./checkpoint_download/bert'',
          Copy ''/proj/configs/bert/model_config/bert_base_uncased.yaml''
            ''./checkpoint_download/bert/bert_base_uncased.yaml'']
   \<and> calls (snd (AutoConfig_from_pretrained ex_book ex_collab
                    (snd (AutoConfig_from_pretrained ex_book ex_collab ex_world
                            (VStr ''bert_base_uncased'')))
                    (VStr ''bert_base_uncased'')))
       = [Makedirs ''./checkpoint_download/bert'',
          Copy ''/proj/configs/bert/model_config/bert_base_uncased.yaml''
            ''./checkpoint_download/bert/bert_base_uncased.yaml'']"
proof -
  let ?s = "''bert_base_uncased''"
  let ?p = "''./checkpoint_download/bert/bert_base_uncased.yaml''"
  let ?w1 = "snd (AutoConfig_from_pretrained ex_book ex_collab ex_world (VStr ?s))"
  have bare: "\<not> path_exists (fs ex_world) ?s"
    by code_simp
  have key: "map_of (model_support_list ex_book) (takeWhile (\<lambda>c. c \<noteq> CHR ''_'') ?s)
               = Some [''bert_base_uncased'']"
    by (simp add: ex_book_def)
  have listed: "?s \<in> set [''bert_base_uncased'']"
    by simp
  have f: "fst (fetch_yaml ex_book ?s ex_world) = Inr ?p"
    by code_simp
  then have first: "fetch_yaml ex_book ?s ex_world = (Inr ?p, snd (fetch_yaml ex_book ?s ex_world))"
    by (metis prod.collapse)
  have still: "\<not> path_exists (fs ?w1) ?s"
    by code_simp
  have c1: "calls ?w1
       = [Makedirs ''./checkpoint_download/bert'',
          Copy ''/proj/configs/bert/model_config/bert_base_uncased.yaml''
            ''./checkpoint_download/bert/bert_base_uncased.yaml'']"
    by code_simp
  from C4_resolution_idempotent [OF bare key listed first refl refl still]
  have "fetch_yaml ex_book ?s ?w1 = (Inr ?p, ?w1)"
    and "calls (snd (AutoConfig_from_pretrained ex_book ex_collab ?w1 (VStr ?s))) = calls ?w1"
    by blast+
  with bare f c1 show ?thesis by simp
qed

end
